theory Spec2Isabelle
  imports Main
begin

section \<open>Exceptions\<close>

text \<open>
  The exceptions the program tells apart by class: \<^verbatim>\<open>asyncio.TimeoutError\<close>, any other
  instance of \<^verbatim>\<open>Exception\<close>, and an exception outside \<^verbatim>\<open>Exception\<close> (\<^verbatim>\<open>SystemExit\<close>,
  \<^verbatim>\<open>KeyboardInterrupt\<close>, \<^verbatim>\<open>asyncio.CancelledError\<close>), each with its text. A clause
  \<^verbatim>\<open>except Exception\<close> catches the first two.
\<close>

datatype exn = TimeoutError | Exception string | BaseException string

fun is_exception :: "exn \<Rightarrow> bool" where
  "is_exception TimeoutError = True"
| "is_exception (Exception m) = True"
| "is_exception (BaseException m) = False"

text \<open>\<^verbatim>\<open>str(e)\<close>\<close>

fun exn_text :: "exn \<Rightarrow> string" where
  "exn_text TimeoutError = []"
| "exn_text (Exception m) = m"
| "exn_text (BaseException m) = m"


section \<open>The static validator of user code\<close>

text \<open>
  \<^verbatim>\<open>validate_user_code\<close> parses the submitted text with Python's \<^verbatim>\<open>ast.parse\<close> and then
  inspects the syntax tree twice: once with \<^verbatim>\<open>SimpleASTValidator\<close> (an
  \<^verbatim>\<open>ast.NodeVisitor\<close>) and once with \<^verbatim>\<open>ast.walk\<close>. The tree is modelled with the node
  classes the two inspections tell apart; every other class of node is \<open>Node\<close>, carrying
  its child nodes in field order. \<open>Constant\<close> is told apart because the library's visitor
  has a method for it. The context of a name or of an attribute (\<^verbatim>\<open>Load\<close>, \<^verbatim>\<open>Store\<close>,
  \<^verbatim>\<open>Del\<close>), a leaf that is never tested, is left out of the tree; the context of any other
  node, like every leaf, is a \<open>Node []\<close> among its children.
\<close>

datatype node =
    Module "node list"
  | FunctionDef string "node list"
  | AsyncFunctionDef string "node list"
  | Arguments "node list"
  | Arg string "node list"
  | Call node "node list"
  | Name string
  | Attribute node string
  | Constant
  | Node "node list"

text \<open>
  \<open>Module body\<close>; \<open>FunctionDef name children\<close> and \<open>AsyncFunctionDef name children\<close>, the
  children being the \<open>Arguments\<close> node followed by the body, the decorators and the return
  annotation; \<open>Arguments children\<close>, the \<open>Arg\<close> nodes of the parameters and the default
  expressions; \<open>Arg name annotation\<close>; \<open>Call func (args @ keywords)\<close>; \<open>Name id\<close>;
  \<open>Attribute value attr\<close>.
\<close>

text \<open>Every \<^verbatim>\<open>raise UnsafeCodeError(...)\<close> of the source is one constructor.\<close>

datatype unsafe_code_error =
    InvalidSyntax string
  | CallNotAllowed string
  | DunderAttribute
  | CodeTooLong
  | MustDefineRun

text \<open>The text of the exception, as \<^verbatim>\<open>str(e)\<close> returns it.\<close>

fun str_of_error :: "unsafe_code_error \<Rightarrow> string" where
  "str_of_error (InvalidSyntax e) = ''Invalid Python syntax: '' @ e"
| "str_of_error (CallNotAllowed ident) = ''Call to '' @ ident @ '' not allowed.''"
| "str_of_error DunderAttribute = ''Access to dunder attributes not allowed.''"
| "str_of_error CodeTooLong = ''Code too long (max 10000 characters).''"
| "str_of_error MustDefineRun =
     ''You must define `async def run(interaction)` or `def run(interaction)`.''"

text \<open>
  An exception that leaves a function of the registration path: the validator's own
  \<^verbatim>\<open>UnsafeCodeError\<close>, the \<^verbatim>\<open>RecursionError\<close> that the interpreter raises when a call would
  exceed its limit of nested frames, or any other exception.
\<close>

datatype raised = UnsafeCodeError unsafe_code_error | RecursionError | Other exn

text \<open>\<^verbatim>\<open>ast.iter_child_nodes\<close>: the child nodes of a node, in field order.\<close>

fun iter_child_nodes :: "node \<Rightarrow> node list" where
  "iter_child_nodes (Module body) = body"
| "iter_child_nodes (FunctionDef name cs) = cs"
| "iter_child_nodes (AsyncFunctionDef name cs) = cs"
| "iter_child_nodes (Arguments cs) = cs"
| "iter_child_nodes (Arg name cs) = cs"
| "iter_child_nodes (Call func args) = func # args"
| "iter_child_nodes (Name ident) = []"
| "iter_child_nodes (Attribute v attr) = [v]"
| "iter_child_nodes Constant = []"
| "iter_child_nodes (Node cs) = cs"

definition deny_list :: "string list" where
  "deny_list = [''eval'', ''exec'', ''__import__'', ''compile'', ''execfile'']"

text \<open>
  The test of \<^verbatim>\<open>visit_Call\<close>:
  \<^verbatim>\<open>isinstance(node.func, ast.Name) and node.func.id in ("eval", ...)\<close>.
  The result is the offending identifier.
\<close>

fun denied_callee :: "node \<Rightarrow> string option" where
  "denied_callee (Name ident) = (if ident \<in> set deny_list then Some ident else None)"
| "denied_callee func = None"

definition startswith :: "string \<Rightarrow> string \<Rightarrow> bool" where
  "startswith s p = (take (length p) s = p)"

text \<open>
  \<^verbatim>\<open>SimpleASTValidator().visit\<close>. The visitor raises at the first offending node it meets
  and the traversal stops there: \<open>Some e\<close> is the exception raised, \<open>None\<close> a traversal
  that completed. \<open>generic_visit\<close> visits the child nodes from left to right.

  The visitor is recursive, one Python call inside the other, and the interpreter
  refuses a call once its limit of nested frames is reached. \<open>room\<close> is the number of
  frames that can still be entered. A node costs the frame of \<^verbatim>\<open>visit\<close> and the frame of
  \<^verbatim>\<open>generic_visit\<close>, in which its children are visited; a call, an attribute and a
  constant cost one frame more, the one of \<^verbatim>\<open>visit_Call\<close>, \<^verbatim>\<open>visit_Attribute\<close> and of the
  library's \<^verbatim>\<open>visit_Constant\<close>, entered from \<^verbatim>\<open>visit\<close>; the tests of \<^verbatim>\<open>visit_Call\<close> and
  \<^verbatim>\<open>visit_Attribute\<close> run in that frame, before \<^verbatim>\<open>generic_visit\<close> is entered. The context of
  a name is its only child, a leaf that takes two frames below the two of the name; the
  context of an attribute is visited after the value of the attribute, at the same
  depth, and never decides. The counts are those of CPython 3.11, where every call of a
  Python function takes one frame.
\<close>

fun visit :: "nat \<Rightarrow> node \<Rightarrow> raised option"
and generic_visit :: "nat \<Rightarrow> node list \<Rightarrow> raised option" where
  "visit room (Call func args) =
     (if room < 2 then Some RecursionError
      else case denied_callee func of
             Some ident \<Rightarrow> Some (UnsafeCodeError (CallNotAllowed ident))
           | None \<Rightarrow>
               if room < 3 then Some RecursionError
               else generic_visit (room - 3) (func # args))"
| "visit room (Attribute v attr) =
     (if room < 2 then Some RecursionError
      else if startswith attr ''__'' then Some (UnsafeCodeError DunderAttribute)
      else if room < 3 then Some RecursionError
      else generic_visit (room - 3) [v])"
| "visit room Constant = (if room < 3 then Some RecursionError else None)"
| "visit room (Name ident) = (if room < 4 then Some RecursionError else None)"
| "visit room (Module body) =
     (if room < 2 then Some RecursionError else generic_visit (room - 2) body)"
| "visit room (FunctionDef name cs) =
     (if room < 2 then Some RecursionError else generic_visit (room - 2) cs)"
| "visit room (AsyncFunctionDef name cs) =
     (if room < 2 then Some RecursionError else generic_visit (room - 2) cs)"
| "visit room (Arguments cs) =
     (if room < 2 then Some RecursionError else generic_visit (room - 2) cs)"
| "visit room (Arg name cs) =
     (if room < 2 then Some RecursionError else generic_visit (room - 2) cs)"
| "visit room (Node cs) =
     (if room < 2 then Some RecursionError else generic_visit (room - 2) cs)"
| "generic_visit room [] = None"
| "generic_visit room (c # cs) =
     (case visit room c of Some e \<Rightarrow> Some e | None \<Rightarrow> generic_visit room cs)"

text \<open>
  \<^verbatim>\<open>ast.walk\<close>: breadth first, a queue that starts with the root; each node taken from the
  front is yielded and its children are appended at the back. It is a loop, and takes no
  frame per node.
\<close>

function walk_queue :: "node list \<Rightarrow> node list" where
  "walk_queue [] = []"
| "walk_queue (n # todo) = n # walk_queue (todo @ iter_child_nodes n)"
  by pat_completeness auto

termination walk_queue
proof (relation "measure (size_list size)")
  show "wf (measure (size_list size))" by simp
next
  fix n :: node and todo :: "node list"
  have "size_list size (iter_child_nodes n) \<le> size n" by (cases n) simp_all
  then show "(todo @ iter_child_nodes n, n # todo) \<in> measure (size_list size)"
    by simp
qed

definition walk :: "node \<Rightarrow> node list" where
  "walk tree = walk_queue [tree]"

text \<open>
  The test of the loop over \<^verbatim>\<open>ast.walk(tree)\<close>:
  \<^verbatim>\<open>isinstance(node, (ast.FunctionDef, ast.AsyncFunctionDef)) and node.name == "run"\<close>.
\<close>

fun is_run :: "node \<Rightarrow> bool" where
  "is_run (FunctionDef name cs) = (name = ''run'')"
| "is_run (AsyncFunctionDef name cs) = (name = ''run'')"
| "is_run n = False"

text \<open>
  \<^verbatim>\<open>validate_user_code\<close>. The parser, \<^verbatim>\<open>ast.parse(textwrap.dedent(code))\<close>, belongs to the
  Python library and is a parameter: \<open>Inl e\<close> when it raises the exception \<open>e\<close>, \<open>Inr tree\<close>
  otherwise. One element of \<open>code\<close> is one character of the Python string, so that
  \<open>length code\<close> is \<^verbatim>\<open>len(code)\<close>. \<open>room\<close> is the number of frames that can be entered
  from the frame of \<^verbatim>\<open>validate_user_code\<close>. The call of the visitor stands outside the
  \<^verbatim>\<open>try\<close> block of the function, so that a \<^verbatim>\<open>RecursionError\<close> of the visitor leaves the
  function as it is. \<open>Inl r\<close> is the exception raised, \<open>Inr ()\<close> a return without
  exception.
\<close>

definition validate_user_code ::
  "nat \<Rightarrow> (string \<Rightarrow> string + node) \<Rightarrow> string \<Rightarrow> raised + unit" where
  "validate_user_code room parse code =
     (case parse code of
        Inl e \<Rightarrow> Inl (UnsafeCodeError (InvalidSyntax e))
      | Inr tree \<Rightarrow>
          (case visit room tree of
             Some r \<Rightarrow> Inl r
           | None \<Rightarrow>
               if length code > 10000 then Inl (UnsafeCodeError CodeTooLong)
               else if list_ex is_run (walk tree) then Inr ()
               else Inl (UnsafeCodeError MustDefineRun)))"


subsection \<open>What a tree contains\<close>

text \<open>
  The nodes of a tree, the root first and the children from left to right: what it means
  for a source to contain a construct. The order is the one in which the visitor meets
  the nodes.
\<close>

fun nodes :: "node \<Rightarrow> node list"
and nodes_list :: "node list \<Rightarrow> node list" where
  "nodes (Module body) = Module body # nodes_list body"
| "nodes (FunctionDef name cs) = FunctionDef name cs # nodes_list cs"
| "nodes (AsyncFunctionDef name cs) = AsyncFunctionDef name cs # nodes_list cs"
| "nodes (Arguments cs) = Arguments cs # nodes_list cs"
| "nodes (Arg name cs) = Arg name cs # nodes_list cs"
| "nodes (Call func args) = Call func args # nodes_list (func # args)"
| "nodes (Name ident) = [Name ident]"
| "nodes (Attribute v attr) = Attribute v attr # nodes_list [v]"
| "nodes Constant = [Constant]"
| "nodes (Node cs) = Node cs # nodes_list cs"
| "nodes_list [] = []"
| "nodes_list (c # cs) = nodes c @ nodes_list cs"

text \<open>
  The exception a single node makes the visitor raise, and the first one in a sequence
  of nodes.
\<close>

fun offence :: "node \<Rightarrow> unsafe_code_error option" where
  "offence (Call func args) = map_option CallNotAllowed (denied_callee func)"
| "offence (Attribute v attr) =
     (if startswith attr ''__'' then Some DunderAttribute else None)"
| "offence n = None"

fun first_offence :: "node list \<Rightarrow> unsafe_code_error option" where
  "first_offence [] = None"
| "first_offence (n # ns) =
     (case offence n of Some e \<Rightarrow> Some e | None \<Rightarrow> first_offence ns)"


subsection \<open>The entry point as the specification words it\<close>




subsection \<open>Example sources\<close>

text \<open>
  \<open>parse_as src tree\<close> is a parser that knows one source: it returns \<open>tree\<close> for \<open>src\<close>
  and raises for every other text; it is applied to its own source and to a text that is
  no Python only. Each example below pairs a source with the tree that \<^verbatim>\<open>ast.parse\<close>
  builds for it. The examples are run with room for 900 frames, somewhat less than the
  interpreter's default limit of 1000.
\<close>

definition parse_as :: "string \<Rightarrow> node \<Rightarrow> string \<Rightarrow> string + node" where
  "parse_as src tree code = (if code = src then Inr tree else Inl ''invalid syntax'')"





text \<open>
  \<^verbatim>\<open>async def run(ctx): return 1\<close>
\<close>

definition src_pong :: string where
  "src_pong = ''async def run(ctx): return 1''"

definition tree_pong :: node where
  "tree_pong = Module [AsyncFunctionDef ''run'' [Arguments [Arg ''ctx'' []], Node [Constant]]]"













text \<open>A text that does not parse: \<^verbatim>\<open>def run(\<close>.\<close>

definition src_broken :: string where
  "src_broken = ''def run(''"




text \<open>
  \<^verbatim>\<open>bot.tree.remove_command('ping', guild=bot.guilds[0])\<close> \<^verbatim>\<open>1/0\<close> \<^verbatim>\<open>def run(i): pass\<close>
\<close>

definition src_remove :: string where
  "src_remove = ''bot.tree.remove_command('' @ [CHR 0x27] @ ''ping'' @ [CHR 0x27]
     @ '', guild=bot.guilds[0])'' @ [CHR 0x0A] @ ''1/0'' @ [CHR 0x0A] @ ''def run(i): pass''"

definition tree_remove :: node where
  "tree_remove =
     Module [Node [Call (Attribute (Attribute (Name ''bot'') ''tree'') ''remove_command'')
                [Constant, Node [Node [Attribute (Name ''bot'') ''guilds'', Constant, Node []]]]],
       Node [Node [Constant, Node [], Constant]],
       FunctionDef ''run'' [Arguments [Arg ''i'' []], Node []]]"


section \<open>The persisted store, its caches and the command tree\<close>

text \<open>
  The bot keeps two dictionaries in memory, \<^verbatim>\<open>dynamic_commands_cache\<close> and \<^verbatim>\<open>guild_cache\<close>,
  the command tree of the Discord library (\<^verbatim>\<open>bot.tree\<close>) and the list \<^verbatim>\<open>bot.guilds\<close>. They
  are the fields of the state \<open>world\<close>, which every operation takes and returns.
  Dictionaries are maps and are copied by value: wherever the source changes a dictionary
  it got from a cache, it stores the changed dictionary back into that cache before it
  returns. One sharing is left out: after the load at start-up the command map of a guild
  in \<^verbatim>\<open>dynamic_commands_cache\<close> is the very object held under \<^verbatim>\<open>dynamic_commands\<close> in the cached
  document of that guild, so that a successful registration then shows in the cached
  document as well. Nothing below speaks of the cached document after a successful
  registration.

  An entry of \<^verbatim>\<open>dynamic_commands\<close> is the dictionary \<^verbatim>\<open>{"code": ..., "description": ...}\<close>, whose
  description may be missing, or, in documents of an older shape, the code alone.
\<close>

datatype cmd_data = CmdDict string "string option" | CmdStr string

record bin_config =
  bin_id :: string
  master_key :: string

text \<open>
  A JSON document of the store, with the two keys the source reads: the root document
  holds \<^verbatim>\<open>guild_bin_configs\<close>, the document of a guild holds \<^verbatim>\<open>dynamic_commands\<close>. \<open>None\<close> is a
  missing key.
\<close>

record json_record =
  guild_bin_configs :: "(string \<rightharpoonup> bin_config) option"
  dynamic_commands :: "(string \<rightharpoonup> cmd_data) option"

definition empty_record :: json_record where
  "empty_record = \<lparr>guild_bin_configs = None, dynamic_commands = None\<rparr>"

text \<open>
  What the bot does, in the order in which it does it, is recorded in a trace: the HTTP
  requests, the calls of \<^verbatim>\<open>asyncio.sleep\<close> with their seconds, the calls of
  \<^verbatim>\<open>sync_all_guild_commands\<close>, and the assignments \<^verbatim>\<open>guild_cache[guild_id] = ...\<close> with the
  key and the document assigned.
\<close>

datatype request = Get string string | Put string string json_record

datatype event = Http request | Sleep nat | Sync | CacheWrite string json_record

text \<open>
  The answer to a request: a status code with the \<^verbatim>\<open>record\<close> of the JSON body (\<open>None\<close> when
  the body has none, or an empty one), or an exception raised by the request or by the
  decoding of its body.
\<close>

datatype response = Response nat "json_record option" | Raised string

text \<open>
  A command of the tree: its description and the function \<^verbatim>\<open>run\<close> its callback calls. A
  guild is known by its identifier, a Python integer. The tree is indexed by the guild
  (\<open>None\<close> for the global commands) and the name. The caches are indexed by the decimal
  text of the identifier.
\<close>

record 'h app_command =
  description :: string
  run_func :: 'h

type_synonym 'h command_tree = "int option \<times> string \<rightharpoonup> 'h app_command"

record 'h world =
  dynamic_commands_cache :: "string \<rightharpoonup> (string \<rightharpoonup> cmd_data)"
  guild_cache :: "string \<rightharpoonup> json_record"
  bot_tree :: "'h command_tree"
  bot_guilds :: "int list"
  trace :: "event list"

text \<open>
  What \<^verbatim>\<open>exec\<close> of the submitted code and the test of the object bound to \<^verbatim>\<open>run\<close> come to:
  \<^item> \<open>ExecRaised e tb\<close>: \<^verbatim>\<open>exec\<close> raised \<open>e\<close>, \<open>tb\<close> being the text of
    \<^verbatim>\<open>traceback.format_exc()\<close>;
  \<^item> \<open>RunTestRaised e\<close>: the truth test \<^verbatim>\<open>not run_func\<close> raised \<open>e\<close> (an object whose
    \<^verbatim>\<open>__bool__\<close> raises);
  \<^item> \<open>NoCallableRun\<close>: nothing is bound to \<^verbatim>\<open>run\<close>, or what is bound is false or not
    callable;
  \<^item> \<open>Callable f\<close>: the callable \<open>f\<close> is bound to \<^verbatim>\<open>run\<close>.
\<close>

datatype 'h executed = ExecRaised exn string | RunTestRaised exn | NoCallableRun | Callable 'h

text \<open>
  What lies outside the repository is a parameter, collected in \<open>env\<close>:
  \<^item> \<open>stack_room\<close>, the number of frames the interpreter lets the validator enter;
  \<^item> \<open>ast_parse\<close>, the parser \<^verbatim>\<open>ast.parse(textwrap.dedent(code))\<close>;
  \<^item> \<open>exec_code\<close>, \<^verbatim>\<open>exec\<close> of the code followed by the test of \<^verbatim>\<open>run\<close>, on a state of the
    bot. The module body of the code runs with \<^verbatim>\<open>bot\<close> and the builtins among its
    globals, so that it can change every part of the state before it returns or raises:
    the result comes with the state it leaves. A module body that never returns keeps
    the registration from returning and has no result here;
  \<^item> \<open>command_error\<close>, the exception that \<^verbatim>\<open>app_commands.Command(name, description, callback)\<close>
    raises for a name and a description, if any;
  \<^item> \<open>add_command_error\<close>, the exception that \<^verbatim>\<open>bot.tree.add_command\<close> raises on a tree for a
    guild and a name, if any;
  \<^item> \<open>http_response\<close>, the answer to the n-th HTTP request of the run;
  \<^item> \<open>py_int\<close>, Python's \<^verbatim>\<open>int\<close> on a string, \<open>None\<close> when it raises, and \<open>py_str\<close>,
    Python's \<^verbatim>\<open>str\<close> on an integer;
  \<^item> the root bin and its key, read from the process environment.

  \<^verbatim>\<open>bot.tree.get_command\<close> and \<^verbatim>\<open>bot.tree.remove_command\<close> are a lookup and a removal that do
  not raise.
\<close>

record 'h env =
  stack_room :: nat
  ast_parse :: "string \<Rightarrow> string + node"
  exec_code :: "string \<Rightarrow> 'h world \<Rightarrow> 'h executed \<times> 'h world"
  command_error :: "string \<Rightarrow> string \<Rightarrow> exn option"
  add_command_error :: "'h command_tree \<Rightarrow> int option \<Rightarrow> string \<Rightarrow> exn option"
  http_response :: "nat \<Rightarrow> response"
  py_int :: "string \<Rightarrow> int option"
  py_str :: "int \<Rightarrow> string"
  root_bin_id :: string
  jsonbin_master_key :: string

subsection \<open>The JSONBin helpers\<close>

fun is_http :: "event \<Rightarrow> bool" where
  "is_http (Http rq) = True"
| "is_http ev = False"

definition http :: "('h, 'x) env_scheme \<Rightarrow> request \<Rightarrow> 'h world \<Rightarrow> response \<times> 'h world" where
  "http env rq w =
     (http_response env (length (filter is_http (trace w))),
      w\<lparr>trace := trace w @ [Http rq]\<rparr>)"

definition sleep :: "nat \<Rightarrow> 'h world \<Rightarrow> 'h world" where
  "sleep seconds w = w\<lparr>trace := trace w @ [Sleep seconds]\<rparr>"

text \<open>
  \<^verbatim>\<open>_jsonbin_get\<close>: the loop \<^verbatim>\<open>for attempt in range(3)\<close>, with the number of attempts left as
  argument. A status 200 returns from inside the loop; everything else is followed by
  \<^verbatim>\<open>asyncio.sleep(1)\<close>. After the loop the result is the empty dictionary.
\<close>

fun jsonbin_get_loop ::
  "('h, 'x) env_scheme \<Rightarrow> string \<Rightarrow> string \<Rightarrow> nat \<Rightarrow> 'h world \<Rightarrow> json_record \<times> 'h world" where
  "jsonbin_get_loop env b k 0 w = (empty_record, w)"
| "jsonbin_get_loop env b k (Suc n) w =
     (case http env (Get b k) w of
        (Response status body, w1) \<Rightarrow>
          if status = 200
          then ((case body of Some r \<Rightarrow> r | None \<Rightarrow> empty_record), w1)
          else jsonbin_get_loop env b k n (sleep 1 w1)
      | (Raised e, w1) \<Rightarrow> jsonbin_get_loop env b k n (sleep 1 w1))"

definition jsonbin_get ::
  "('h, 'x) env_scheme \<Rightarrow> string \<Rightarrow> string \<Rightarrow> 'h world \<Rightarrow> json_record \<times> 'h world" where
  "jsonbin_get env b k w = jsonbin_get_loop env b k 3 w"

text \<open>\<^verbatim>\<open>_jsonbin_put\<close>: the same loop; a status 200 or 201 returns \<^verbatim>\<open>True\<close>.\<close>

fun jsonbin_put_loop ::
  "('h, 'x) env_scheme \<Rightarrow> string \<Rightarrow> string \<Rightarrow> json_record \<Rightarrow> nat \<Rightarrow> 'h world \<Rightarrow> bool \<times> 'h world"
  where
  "jsonbin_put_loop env b k r 0 w = (False, w)"
| "jsonbin_put_loop env b k r (Suc n) w =
     (case http env (Put b k r) w of
        (Response status body, w1) \<Rightarrow>
          if status = 200 \<or> status = 201 then (True, w1)
          else jsonbin_put_loop env b k r n (sleep 1 w1)
      | (Raised e, w1) \<Rightarrow> jsonbin_put_loop env b k r n (sleep 1 w1))"

definition jsonbin_put ::
  "('h, 'x) env_scheme \<Rightarrow> string \<Rightarrow> string \<Rightarrow> json_record \<Rightarrow> 'h world \<Rightarrow> bool \<times> 'h world" where
  "jsonbin_put env b k r w = jsonbin_put_loop env b k r 3 w"

definition get_root_record :: "('h, 'x) env_scheme \<Rightarrow> 'h world \<Rightarrow> json_record \<times> 'h world" where
  "get_root_record env w = jsonbin_get env (root_bin_id env) (jsonbin_master_key env) w"

text \<open>\<^verbatim>\<open>d.get(key) or {}\<close> for a dictionary-valued key.\<close>

fun or_empty :: "('k \<rightharpoonup> 'v) option \<Rightarrow> ('k \<rightharpoonup> 'v)" where
  "or_empty None = Map.empty"
| "or_empty (Some m) = m"

definition get_guild_bin_config ::
  "('h, 'x) env_scheme \<Rightarrow> string \<Rightarrow> 'h world \<Rightarrow> bin_config option \<times> 'h world" where
  "get_guild_bin_config env guild_id w =
     (case get_root_record env w of
        (record, w1) \<Rightarrow> (or_empty (guild_bin_configs record) guild_id, w1))"

text \<open>The assignment \<^verbatim>\<open>guild_cache[guild_id] = data\<close>.\<close>

definition cache_write :: "string \<Rightarrow> json_record \<Rightarrow> 'h world \<Rightarrow> 'h world" where
  "cache_write guild_id data w =
     w\<lparr>guild_cache := (guild_cache w)(guild_id \<mapsto> data),
       trace := trace w @ [CacheWrite guild_id data]\<rparr>"

text \<open>\<^verbatim>\<open>load_guild_data\<close>\<close>

definition load_guild_data ::
  "('h, 'x) env_scheme \<Rightarrow> string \<Rightarrow> 'h world \<Rightarrow> json_record \<times> 'h world" where
  "load_guild_data env guild_id w =
     (case guild_cache w guild_id of
        Some cached \<Rightarrow> (cached, w)
      | None \<Rightarrow>
          (case get_guild_bin_config env guild_id w of
             (None, w1) \<Rightarrow> (empty_record, cache_write guild_id empty_record w1)
           | (Some config, w1) \<Rightarrow>
               (case jsonbin_get env (bin_id config) (master_key config) w1 of
                  (data, w2) \<Rightarrow> (data, cache_write guild_id data w2))))"

text \<open>\<^verbatim>\<open>save_guild_data\<close>\<close>

definition save_guild_data ::
  "('h, 'x) env_scheme \<Rightarrow> string \<Rightarrow> json_record \<Rightarrow> 'h world \<Rightarrow> bool \<times> 'h world" where
  "save_guild_data env guild_id guild_data w =
     (let w0 = cache_write guild_id guild_data w
      in case get_guild_bin_config env guild_id w0 of
           (None, w1) \<Rightarrow> (False, w1)
         | (Some config, w1) \<Rightarrow>
             jsonbin_put env (bin_id config) (master_key config) guild_data w1)"

text \<open>\<^verbatim>\<open>description or f"Dynamic command: {cmd_name}"\<close>\<close>

fun description_or_default :: "string option \<Rightarrow> string \<Rightarrow> string" where
  "description_or_default None cmd_name = ''Dynamic command: '' @ cmd_name"
| "description_or_default (Some d) cmd_name =
     (if d = [] then ''Dynamic command: '' @ cmd_name else d)"

text \<open>\<^verbatim>\<open>save_dynamic_command\<close>\<close>

definition save_dynamic_command ::
  "('h, 'x) env_scheme \<Rightarrow> string \<Rightarrow> string \<Rightarrow> string \<Rightarrow> string option \<Rightarrow> 'h world
     \<Rightarrow> bool \<times> 'h world" where
  "save_dynamic_command env guild_id cmd_name code descr w =
     (let entry = CmdDict code (Some (description_or_default descr cmd_name));
          cmds = or_empty (dynamic_commands_cache w guild_id);
          w0 = w\<lparr>dynamic_commands_cache :=
                   (dynamic_commands_cache w)(guild_id \<mapsto> cmds(cmd_name \<mapsto> entry))\<rparr>
      in case load_guild_data env guild_id w0 of
           (guild_data, w1) \<Rightarrow>
             save_guild_data env guild_id
               (guild_data\<lparr>dynamic_commands :=
                   Some ((or_empty (dynamic_commands guild_data))(cmd_name \<mapsto> entry))\<rparr>) w1)"

text \<open>\<^verbatim>\<open>delete_dynamic_command_from_store\<close>\<close>

definition delete_dynamic_command_from_store ::
  "('h, 'x) env_scheme \<Rightarrow> string \<Rightarrow> string \<Rightarrow> 'h world \<Rightarrow> bool \<times> 'h world" where
  "delete_dynamic_command_from_store env guild_id cmd_name w =
     (let w0 = (case dynamic_commands_cache w guild_id of
                  None \<Rightarrow> w
                | Some cmds \<Rightarrow>
                    w\<lparr>dynamic_commands_cache :=
                        (dynamic_commands_cache w)(guild_id \<mapsto> cmds(cmd_name := None))\<rparr>)
      in case load_guild_data env guild_id w0 of
           (guild_data, w1) \<Rightarrow>
             (case dynamic_commands guild_data of
                None \<Rightarrow> (True, w1)
              | Some cmds \<Rightarrow>
                  save_guild_data env guild_id
                    (guild_data\<lparr>dynamic_commands := Some (cmds(cmd_name := None))\<rparr>) w1))"

subsection \<open>Registration\<close>

text \<open>
  A call either returns a value or lets an exception escape. \<^verbatim>\<open>register_dynamic_command\<close>
  returns the pair \<^verbatim>\<open>(success, error)\<close>.
\<close>

datatype 'a result = Returns 'a | Raises raised

text \<open>
  \<^verbatim>\<open>discord.utils.get(bot.guilds, id=int(guild_id))\<close> inside its \<^verbatim>\<open>try\<close>: the guild whose
  identifier is the integer that the text denotes, when the bot is in it; \<^verbatim>\<open>None\<close> when
  it is not, and when \<^verbatim>\<open>int\<close> raises.
\<close>

definition guild_of :: "('h, 'x) env_scheme \<Rightarrow> 'h world \<Rightarrow> string \<Rightarrow> int option" where
  "guild_of env w guild_id =
     (case py_int env guild_id of
        None \<Rightarrow> None
      | Some i \<Rightarrow> if i \<in> set (bot_guilds w) then Some i else None)"

definition remove_command :: "int option \<Rightarrow> string \<Rightarrow> 'h world \<Rightarrow> 'h world" where
  "remove_command guild_obj cmd_name w =
     w\<lparr>bot_tree := (bot_tree w)((guild_obj, cmd_name) := None)\<rparr>"

text \<open>
  \<^verbatim>\<open>register_dynamic_command\<close>. The clause \<^verbatim>\<open>except UnsafeCodeError\<close> catches the validator's
  own exception only; the clause around \<^verbatim>\<open>exec\<close> and the one around \<^verbatim>\<open>add_command\<close> catch the
  instances of \<^verbatim>\<open>Exception\<close>; the test of \<^verbatim>\<open>run_func\<close> and the construction of the command
  stand outside every \<^verbatim>\<open>try\<close>. Everything after \<^verbatim>\<open>exec\<close> works on the state that the module
  body of the code has left.
\<close>

definition register_dynamic_command ::
  "('h, 'x) env_scheme \<Rightarrow> string \<Rightarrow> string \<Rightarrow> string \<Rightarrow> string option \<Rightarrow> 'h world
     \<Rightarrow> (bool \<times> string option) result \<times> 'h world" where
  "register_dynamic_command env guild_id cmd_name code descr w =
     (case validate_user_code (stack_room env) (ast_parse env) code of
        Inl r \<Rightarrow>
          (case r of
             UnsafeCodeError e \<Rightarrow> (Returns (False, Some (str_of_error e)), w)
           | _ \<Rightarrow> (Raises r, w))
      | Inr u \<Rightarrow>
          (case exec_code env code w of
             (ExecRaised e tb, wx) \<Rightarrow>
               if is_exception e
               then (Returns (False,
                       Some (''Execution error: '' @ exn_text e @ [CHR 0x0A] @ tb)), wx)
               else (Raises (Other e), wx)
           | (RunTestRaised e, wx) \<Rightarrow> (Raises (Other e), wx)
           | (NoCallableRun, wx) \<Rightarrow>
               (Returns (False, Some ''No callable run(interaction) function found in code.''),
                wx)
           | (Callable f, wx) \<Rightarrow>
               (let guild_obj = guild_of env wx guild_id;
                    w1 = (if bot_tree wx (guild_obj, cmd_name) \<noteq> None
                          then remove_command guild_obj cmd_name wx else wx);
                    desc = take 100 (description_or_default descr cmd_name)
                in case command_error env cmd_name desc of
                     Some e \<Rightarrow> (Raises (Other e), w1)
                   | None \<Rightarrow>
                       (case add_command_error env (bot_tree w1) guild_obj cmd_name of
                          Some e \<Rightarrow>
                            if is_exception e
                            then (Returns (False,
                                    Some (''Failed to add command: '' @ exn_text e)), w1)
                            else (Raises (Other e), w1)
                        | None \<Rightarrow>
                            (Returns (True, None),
                             w1\<lparr>bot_tree := (bot_tree w1)((guild_obj, cmd_name) \<mapsto>
                                     \<lparr>description = desc, run_func = f\<rparr>),
                                dynamic_commands_cache :=
                                  (dynamic_commands_cache w1)(guild_id \<mapsto>
                                    (or_empty (dynamic_commands_cache w1 guild_id))
                                      (cmd_name \<mapsto> CmdDict code (Some desc)))\<rparr>)))))"

definition sync_all_guild_commands :: "'h world \<Rightarrow> 'h world" where
  "sync_all_guild_commands w = w\<lparr>trace := trace w @ [Sync]\<rparr>"

subsection \<open>The administration commands\<close>

text \<open>
  The message a command answers with, or the exception that escapes it. An interaction
  comes from a guild the bot is in; \<^verbatim>\<open>interaction.guild\<close> is that guild, \<open>guild\<close> its
  identifier, and \<^verbatim>\<open>str(interaction.guild.id)\<close> the key of the caches.
\<close>

datatype reply =
    AdminOnly
  | FailedToDeleteFromStorage
  | Deleted string
  | NotFound string
  | Error "string option"
  | Renamed string string
  | Unhandled raised

text \<open>\<^verbatim>\<open>delete_command\<close>\<close>

definition delete_command ::
  "('h, 'x) env_scheme \<Rightarrow> bool \<Rightarrow> int \<Rightarrow> string \<Rightarrow> 'h world \<Rightarrow> reply \<times> 'h world" where
  "delete_command env is_admin guild command_name w =
     (if \<not> is_admin then (AdminOnly, w)
      else
        let guild_id = py_str env guild;
            w1 = (if bot_tree w (Some guild, command_name) \<noteq> None
                  then remove_command (Some guild) command_name w else w)
        in case delete_dynamic_command_from_store env guild_id command_name w1 of
             (ok, w2) \<Rightarrow>
               if \<not> ok then (FailedToDeleteFromStorage, w2)
               else (Deleted command_name, sync_all_guild_commands w2))"

text \<open>\<^verbatim>\<open>rename_command\<close>\<close>

fun code_of :: "cmd_data \<Rightarrow> string" where
  "code_of (CmdDict code descr) = code"
| "code_of (CmdStr code) = code"

fun description_of :: "cmd_data \<Rightarrow> string \<Rightarrow> string" where
  "description_of (CmdDict code (Some d)) new_name = d"
| "description_of (CmdDict code None) new_name = ''Dynamic command: '' @ new_name"
| "description_of (CmdStr code) new_name = ''Dynamic command: '' @ new_name"

definition rename_command ::
  "('h, 'x) env_scheme \<Rightarrow> bool \<Rightarrow> int \<Rightarrow> string \<Rightarrow> string \<Rightarrow> 'h world \<Rightarrow> reply \<times> 'h world"
  where
  "rename_command env is_admin guild old_name new_name w =
     (if \<not> is_admin then (AdminOnly, w)
      else
        let guild_id = py_str env guild
        in case or_empty (dynamic_commands_cache w guild_id) old_name of
             None \<Rightarrow> (NotFound old_name, w)
           | Some cmd_data \<Rightarrow>
               (let code = code_of cmd_data;
                    desc = description_of cmd_data new_name;
                    w1 = (if bot_tree w (Some guild, old_name) \<noteq> None
                          then remove_command (Some guild) old_name w else w)
                in case delete_dynamic_command_from_store env guild_id old_name w1 of
                     (ok, w2) \<Rightarrow>
                       (case register_dynamic_command env guild_id new_name code (Some desc) w2 of
                          (Raises e, w3) \<Rightarrow> (Unhandled e, w3)
                        | (Returns (success, error), w3) \<Rightarrow>
                            if \<not> success then (Error error, w3)
                            else
                              (case save_dynamic_command env guild_id new_name code (Some desc)
                                      w3 of
                                 (saved, w4) \<Rightarrow>
                                   (Renamed old_name new_name, sync_all_guild_commands w4)))))"

subsection \<open>Running a registered command\<close>

text \<open>
  Awaiting the call of \<^verbatim>\<open>run\<close> under its timeout of 30 seconds, directly for a coroutine
  function and through \<^verbatim>\<open>run_blocking\<close> otherwise, gives a result or raises; the expiry of
  the timeout raises \<^verbatim>\<open>TimeoutError\<close>. That outcome belongs to the user's code and is a
  parameter. \<open>Result None\<close> is a result that is false in a condition, \<open>Result (Some s)\<close> any
  other result with its text \<^verbatim>\<open>str(result)\<close>. Beside its outcome the code leaves a state
  of the bot, on which it can act through the global \<^verbatim>\<open>bot\<close>, and it has or has not
  answered the interaction.
\<close>

datatype awaited = Result "string option" | Raise exn

record 'h invocation =
  outcome :: awaited
  is_done :: bool
  after :: "'h world"

datatype message = ResultText string | TimedOut | ErrorText string

text \<open>
  What the callback did: the messages it sent, whether it logged the exception, the
  exception that escaped it if any, and the state of the bot it leaves.
\<close>

record 'h callback_result =
  sent :: "message list"
  logged :: bool
  escaped :: "exn option"
  final :: "'h world"

text \<open>
  \<^verbatim>\<open>if not interaction.response.is_done(): await interaction.response.send_message(...)\<close>.
  \<open>send_raises\<close> is the exception the sending raises, if any.
\<close>

definition respond :: "bool \<Rightarrow> exn option \<Rightarrow> message \<Rightarrow> message list \<times> exn option" where
  "respond done send_raises msg =
     (if done then ([], None)
      else case send_raises of None \<Rightarrow> ([msg], None) | Some e \<Rightarrow> ([], Some e))"

text \<open>
  The \<^verbatim>\<open>except\<close> clauses of the callback, for an exception raised in its \<^verbatim>\<open>try\<close> block.
  \<open>send_raises\<close> gives, for the n-th sending of the callback, the exception it raises.
\<close>

definition handle_exception ::
  "exn \<Rightarrow> bool \<Rightarrow> exn option \<Rightarrow> message list \<Rightarrow> 'h world \<Rightarrow> 'h callback_result" where
  "handle_exception e done send_raises sent_before w =
     (case e of
        TimeoutError \<Rightarrow>
          (case respond done send_raises TimedOut of
             (msgs, raised) \<Rightarrow>
               \<lparr>sent = sent_before @ msgs, logged = False, escaped = raised, final = w\<rparr>)
      | Exception m \<Rightarrow>
          (case respond done send_raises (ErrorText m) of
             (msgs, raised) \<Rightarrow>
               \<lparr>sent = sent_before @ msgs, logged = True,
                escaped = (case raised of
                             None \<Rightarrow> None
                           | Some e' \<Rightarrow> if is_exception e' then None else Some e'),
                final = w\<rparr>)
      | BaseException m \<Rightarrow>
          \<lparr>sent = sent_before, logged = False, escaped = Some (BaseException m), final = w\<rparr>)"

text \<open>\<^verbatim>\<open>callback\<close>, the function nested in \<^verbatim>\<open>register_dynamic_command\<close>.\<close>

definition callback :: "'h invocation \<Rightarrow> (nat \<Rightarrow> exn option) \<Rightarrow> 'h callback_result" where
  "callback call send_raises =
     (case outcome call of
        Raise e \<Rightarrow> handle_exception e (is_done call) (send_raises 0) [] (after call)
      | Result None \<Rightarrow>
          \<lparr>sent = [], logged = False, escaped = None, final = after call\<rparr>
      | Result (Some s) \<Rightarrow>
          (case respond (is_done call) (send_raises 0) (ResultText s) of
             (msgs, None) \<Rightarrow>
               \<lparr>sent = msgs, logged = False, escaped = None, final = after call\<rparr>
           | (msgs, Some e) \<Rightarrow>
               handle_exception e (is_done call) (send_raises 1) msgs (after call)))"


section \<open>Words and examples for the claims\<close>

text \<open>
  Two states have the same registry when the in-memory command map, the command tree and
  the guilds of the bot agree. \<open>http_count\<close> is the number of HTTP requests made so far,
  the index of the next answer. A fetch fails unless its status is 200, a write unless
  its status is 200 or 201.
\<close>

definition same_registry :: "'h world \<Rightarrow> 'h world \<Rightarrow> bool" where
  "same_registry w w' \<longleftrightarrow>
     dynamic_commands_cache w' = dynamic_commands_cache w
     \<and> bot_tree w' = bot_tree w \<and> bot_guilds w' = bot_guilds w"

definition http_count :: "'h world \<Rightarrow> nat" where
  "http_count w = length (filter is_http (trace w))"

fun failed_get :: "response \<Rightarrow> bool" where
  "failed_get (Response status body) = (status \<noteq> 200)"
| "failed_get (Raised e) = True"

fun failed_put :: "response \<Rightarrow> bool" where
  "failed_put (Response status body) = (status \<noteq> 200 \<and> status \<noteq> 201)"
| "failed_put (Raised e) = True"

text \<open>
  Python's \<^verbatim>\<open>int\<close> on a text of decimal digits, the only texts the examples convert, and
  Python's \<^verbatim>\<open>str\<close> on an integer.
\<close>

definition int_of_text :: "string \<Rightarrow> int option" where
  "int_of_text s =
     (if s \<noteq> [] \<and> set s \<subseteq> set ''0123456789''
      then Some (foldl (\<lambda>a c. 10 * a + (int (of_char c) - 48)) 0 s)
      else None)"

function str_of_nat :: "nat \<Rightarrow> string" where
  "str_of_nat n =
     (if n < 10 then [char_of (48 + n)]
      else str_of_nat (n div 10) @ [char_of (48 + n mod 10)])"
  by pat_completeness auto

termination str_of_nat
  by (relation "measure id") auto

declare str_of_nat.simps [simp del]

definition str_of_int :: "int \<Rightarrow> string" where
  "str_of_int i = (if i < 0 then ''-'' @ str_of_nat (nat (- i)) else str_of_nat (nat i))"

text \<open>
  An empty state of a bot that is in guild \<^verbatim>\<open>1\<close>; a root document that configures the bin
  of that guild; a document of the guild without commands; three behaviours of the
  network (every request raises; only the first request is answered, with the root
  document; every request is answered, the second with the document of the guild); a
  command tree that accepts every addition; and a constructor of commands that refuses,
  as the library does, a name with a blank in it.
\<close>

definition world0 :: "unit world" where
  "world0 =
     \<lparr>dynamic_commands_cache = Map.empty, guild_cache = Map.empty, bot_tree = Map.empty,
      bot_guilds = [1], trace = []\<rparr>"

definition root_doc :: json_record where
  "root_doc =
     \<lparr>guild_bin_configs = Some [''1'' \<mapsto> \<lparr>bin_id = ''bin1'', master_key = ''key1''\<rparr>],
      dynamic_commands = None\<rparr>"

definition guild_doc :: json_record where
  "guild_doc = \<lparr>guild_bin_configs = None, dynamic_commands = Some Map.empty\<rparr>"

definition net_down :: "nat \<Rightarrow> response" where
  "net_down i = Raised ''unreachable''"

definition net_root_only :: "nat \<Rightarrow> response" where
  "net_root_only i = (if i = 0 then Response 200 (Some root_doc) else Raised ''unreachable'')"

definition net_up :: "nat \<Rightarrow> response" where
  "net_up i = (if i = 1 then Response 200 (Some guild_doc) else Response 200 (Some root_doc))"

definition accept_all :: "unit command_tree \<Rightarrow> int option \<Rightarrow> string \<Rightarrow> exn option" where
  "accept_all t guild_obj cmd_name = None"

definition name_error :: exn where
  "name_error =
     Exception (''must be between 1-32 characters and contain only lower-case ''
       @ ''letters, numbers, hyphens, or underscores.'')"

definition refuse_blank :: "string \<Rightarrow> string \<Rightarrow> exn option" where
  "refuse_blank cmd_name desc = (if CHR '' '' \<in> set cmd_name then Some name_error else None)"

text \<open>
  An environment that knows one source: its parser returns \<open>tree\<close> for \<open>src\<close>, and \<^verbatim>\<open>exec\<close>
  of \<open>src\<close> does what \<open>body\<close> says; every other text is no Python for it. The validator
  has room for 900 frames.
\<close>

definition bot_env ::
  "string \<Rightarrow> node \<Rightarrow> (unit world \<Rightarrow> unit executed \<times> unit world) \<Rightarrow> (nat \<Rightarrow> response)
     \<Rightarrow> unit env" where
  "bot_env src tree body net =
     \<lparr>stack_room = 900,
      ast_parse = parse_as src tree,
      exec_code = (\<lambda>code w. if code = src then body w
                     else (ExecRaised (Exception ''invalid syntax'') [], w)),
      command_error = refuse_blank,
      add_command_error = accept_all,
      http_response = net,
      py_int = int_of_text,
      py_str = str_of_int,
      root_bin_id = ''root'',
      jsonbin_master_key = ''rootkey''\<rparr>"

text \<open>
  The module body of \<^verbatim>\<open>async def run(ctx): return 1\<close> binds \<^verbatim>\<open>run\<close> and touches nothing.
  The module body of the source that removes \<^verbatim>\<open>ping\<close> takes the command \<^verbatim>\<open>ping\<close> of the
  first guild out of the tree and then divides by zero; the traceback is cut down to
  its first word.
\<close>

definition body_pong :: "unit world \<Rightarrow> unit executed \<times> unit world" where
  "body_pong w = (Callable (), w)"

definition body_remove :: "unit world \<Rightarrow> unit executed \<times> unit world" where
  "body_remove w =
     (case bot_guilds w of
        [] \<Rightarrow> (ExecRaised (Exception ''list index out of range'') ''Traceback'', w)
      | g # gs \<Rightarrow>
          (ExecRaised (Exception ''division by zero'') ''Traceback'',
           remove_command (Some g) ''ping'' w))"

definition pong_env :: "(nat \<Rightarrow> response) \<Rightarrow> unit env" where
  "pong_env net = bot_env src_pong tree_pong body_pong net"

definition remove_env :: "unit env" where
  "remove_env = bot_env src_remove tree_remove body_remove net_down"

text \<open>
  A state in which guild \<^verbatim>\<open>1\<close> has the command \<^verbatim>\<open>ping\<close>, in the in-memory map and in the
  command tree; an invocation whose code raises an \<^verbatim>\<open>Exception\<close>, one whose code raises
  \<^verbatim>\<open>SystemExit\<close>, neither having answered the interaction; and a sending that never raises.
\<close>

definition world_ping :: "unit world" where
  "world_ping =
     \<lparr>dynamic_commands_cache = [''1'' \<mapsto> [''ping'' \<mapsto> CmdDict src_pong (Some ''pings'')]],
      guild_cache = Map.empty,
      bot_tree = [(Some 1, ''ping'') \<mapsto> \<lparr>description = ''pings'', run_func = ()\<rparr>],
      bot_guilds = [1], trace = []\<rparr>"

definition call_boom :: "unit invocation" where
  "call_boom = \<lparr>outcome = Raise (Exception ''boom''), is_done = False, after = world_ping\<rparr>"

definition call_system_exit :: "unit invocation" where
  "call_system_exit =
     \<lparr>outcome = Raise (BaseException ''SystemExit''), is_done = False, after = world_ping\<rparr>"

definition send_ok :: "nat \<Rightarrow> exn option" where
  "send_ok i = None"


section \<open>Properties of the validator\<close>

lemma parse_as_same: "parse_as src tree src = Inr tree"
  by (simp add: parse_as_def)

lemma first_offence_append:
  "first_offence (xs @ ys) =
     (case first_offence xs of Some e \<Rightarrow> Some e | None \<Rightarrow> first_offence ys)"
  by (induction xs) (auto split: option.splits)

text \<open>
  Unless the visitor runs out of frames, it raises what the first offending node in
  pre-order makes it raise.
\<close>

lemma visit_first_offence:
  "visit room t \<noteq> Some RecursionError \<Longrightarrow>
     visit room t = map_option UnsafeCodeError (first_offence (nodes t))"
  "generic_visit room cs \<noteq> Some RecursionError \<Longrightarrow>
     generic_visit room cs = map_option UnsafeCodeError (first_offence (nodes_list cs))"
proof (induction room t and room cs rule: visit_generic_visit.induct)
  case (1 room func args)
  then show ?case by (cases "denied_callee func") (auto split: if_splits)
next
  case (2 room v attr)
  then show ?case by (auto split: if_splits)
next
  case (12 room c cs)
  show ?case
  proof (cases "visit room c")
    case None
    with 12 show ?thesis by (simp add: first_offence_append split: option.splits)
  next
    case (Some r)
    with 12 show ?thesis by (auto simp: first_offence_append split: option.splits)
  qed
qed (auto split: if_splits)



lemma set_nodes_list: "set (nodes_list cs) = (\<Union>c\<in>set cs. set (nodes c))"
  by (induction cs) auto

lemma set_nodes: "set (nodes n) = insert n (\<Union>c\<in>set (iter_child_nodes n). set (nodes c))"
  by (cases n) (simp_all add: set_nodes_list)

text \<open>\<^verbatim>\<open>ast.walk\<close> yields exactly the nodes of the tree.\<close>

lemma set_walk_queue: "set (walk_queue q) = (\<Union>n\<in>set q. set (nodes n))"
proof (induction q rule: walk_queue.induct)
  case 1
  then show ?case by simp
next
  case (2 n todo)
  have "set (walk_queue (n # todo)) = insert n (set (walk_queue (todo @ iter_child_nodes n)))"
    by simp
  also have "\<dots> = insert n ((\<Union>m\<in>set todo. set (nodes m))
      \<union> (\<Union>c\<in>set (iter_child_nodes n). set (nodes c)))"
    using 2 by simp
  also have "\<dots> = set (nodes n) \<union> (\<Union>m\<in>set todo. set (nodes m))"
    using set_nodes [of n] by auto
  finally show ?case by simp
qed

lemma set_walk: "set (walk t) = set (nodes t)"
  by (simp add: walk_def set_walk_queue del: walk_queue.simps)

lemma found_run: "list_ex is_run (walk t) = list_ex is_run (nodes t)"
  by (simp add: list_ex_iff set_walk)




lemma validate_user_code_parsed:
  assumes "parse code = Inr tree"
  shows "validate_user_code room parse code =
     (if visit room tree = Some RecursionError then Inl RecursionError
      else case first_offence (nodes tree) of
             Some e \<Rightarrow> Inl (UnsafeCodeError e)
           | None \<Rightarrow>
               if length code > 10000 then Inl (UnsafeCodeError CodeTooLong)
               else if list_ex is_run (nodes tree) then Inr ()
               else Inl (UnsafeCodeError MustDefineRun))"
proof (cases "visit room tree = Some RecursionError")
  case True
  with assms show ?thesis by (simp add: validate_user_code_def)
next
  case False
  from visit_first_offence(1) [OF False]
  have "visit room tree = map_option UnsafeCodeError (first_offence (nodes tree))" .
  with False assms show ?thesis
    by (simp add: validate_user_code_def found_run split: option.splits)
qed




subsection \<open>Claims about the validator\<close>













section \<open>Properties of the store\<close>

lemma same_registry_refl [simp]: "same_registry w w"
  by (simp add: same_registry_def)

lemma same_registry_trace [simp]: "same_registry w (w'\<lparr>trace := t\<rparr>) = same_registry w w'"
  by (simp add: same_registry_def)

lemma same_registry_guild_cache [simp]:
  "same_registry w (w'\<lparr>guild_cache := c\<rparr>) = same_registry w w'"
  by (simp add: same_registry_def)

text \<open>The JSONBin loops touch the trace only.\<close>

lemma jsonbin_get_loop_frame:
  "\<exists>t. snd (jsonbin_get_loop env b k n w) = w\<lparr>trace := trace w @ t\<rparr>"
proof (induction n arbitrary: w)
  case 0
  have "w = w\<lparr>trace := trace w @ []\<rparr>" by simp
  then show ?case by (metis jsonbin_get_loop.simps(1) snd_conv)
next
  case (Suc n)
  let ?w1 = "sleep 1 (w\<lparr>trace := trace w @ [Http (Get b k)]\<rparr>)"
  from Suc [of ?w1] obtain t where
    t: "snd (jsonbin_get_loop env b k n ?w1) = ?w1\<lparr>trace := trace ?w1 @ t\<rparr>" by blast
  have a: "?w1\<lparr>trace := trace ?w1 @ t\<rparr> = w\<lparr>trace := trace w @ (Http (Get b k) # Sleep 1 # t)\<rparr>"
    by (simp add: sleep_def)
  show ?case
    using t a by (auto simp: http_def split: response.splits)
qed

lemma jsonbin_put_loop_frame:
  "\<exists>t. snd (jsonbin_put_loop env b k r n w) = w\<lparr>trace := trace w @ t\<rparr>"
proof (induction n arbitrary: w)
  case 0
  have "w = w\<lparr>trace := trace w @ []\<rparr>" by simp
  then show ?case by (metis jsonbin_put_loop.simps(1) snd_conv)
next
  case (Suc n)
  let ?w1 = "sleep 1 (w\<lparr>trace := trace w @ [Http (Put b k r)]\<rparr>)"
  from Suc [of ?w1] obtain t where
    t: "snd (jsonbin_put_loop env b k r n ?w1) = ?w1\<lparr>trace := trace ?w1 @ t\<rparr>" by blast
  have a: "?w1\<lparr>trace := trace ?w1 @ t\<rparr> = w\<lparr>trace := trace w @ (Http (Put b k r) # Sleep 1 # t)\<rparr>"
    by (simp add: sleep_def)
  show ?case
    using t a by (auto simp: http_def split: response.splits)
qed

lemma jsonbin_get_frame: "\<exists>t. snd (jsonbin_get env b k w) = w\<lparr>trace := trace w @ t\<rparr>"
  unfolding jsonbin_get_def by (rule jsonbin_get_loop_frame)

lemma jsonbin_put_frame: "\<exists>t. snd (jsonbin_put env b k r w) = w\<lparr>trace := trace w @ t\<rparr>"
  unfolding jsonbin_put_def by (rule jsonbin_put_loop_frame)

lemma get_guild_bin_config_frame:
  "\<exists>t. snd (get_guild_bin_config env g w) = w\<lparr>trace := trace w @ t\<rparr>"
  using jsonbin_get_frame [of env "root_bin_id env" "jsonbin_master_key env" w]
  by (auto simp: get_guild_bin_config_def get_root_record_def split: prod.splits)

text \<open>
  \<^verbatim>\<open>load_guild_data\<close> changes the cache at its guild at most, and returns what the cache
  holds there afterwards.
\<close>

lemma load_guild_data_frame:
  "\<exists>c t. load_guild_data env g w =
      (c, w\<lparr>guild_cache := (guild_cache w)(g \<mapsto> c), trace := trace w @ t\<rparr>)"
proof (cases "guild_cache w g")
  case (Some d)
  then have "(guild_cache w)(g \<mapsto> d) = guild_cache w" by (simp add: fun_upd_idem)
  then have "w = w\<lparr>guild_cache := (guild_cache w)(g \<mapsto> d), trace := trace w @ []\<rparr>" by simp
  with Some show ?thesis by (auto simp: load_guild_data_def intro: exI [of _ "[]"])
next
  case None
  obtain cfg w1 where c: "get_guild_bin_config env g w = (cfg, w1)" by force
  with get_guild_bin_config_frame [of env g w] obtain t where
    w1: "w1 = w\<lparr>trace := trace w @ t\<rparr>" by auto
  show ?thesis
  proof (cases cfg)
    case None
    with \<open>guild_cache w g = None\<close> c w1 show ?thesis
      by (auto simp: load_guild_data_def cache_write_def
          intro!: exI [of _ "t @ [CacheWrite g empty_record]"])
  next
    case (Some config)
    obtain d w2 where j: "jsonbin_get env (bin_id config) (master_key config) w1 = (d, w2)"
      by force
    with jsonbin_get_frame [of env "bin_id config" "master_key config" w1] obtain t' where
      "w2 = w1\<lparr>trace := trace w1 @ t'\<rparr>" by auto
    with Some \<open>guild_cache w g = None\<close> c w1 j show ?thesis
      by (auto simp: load_guild_data_def cache_write_def
          intro!: exI [of _ "t @ t' @ [CacheWrite g d]"])
  qed
qed

text \<open>
  \<^verbatim>\<open>save_guild_data\<close> changes the cache at its guild, where it puts the document, and the
  trace, to which it adds the assignment to the cache followed by everything else.
\<close>

lemma save_guild_data_frame:
  "\<exists>t. snd (save_guild_data env g d w) =
      w\<lparr>guild_cache := (guild_cache w)(g \<mapsto> d), trace := trace w @ CacheWrite g d # t\<rparr>"
proof -
  let ?w0 = "cache_write g d w"
  obtain cfg w1 where c: "get_guild_bin_config env g ?w0 = (cfg, w1)" by force
  with get_guild_bin_config_frame [of env g ?w0] obtain t where
    w1: "w1 = ?w0\<lparr>trace := trace ?w0 @ t\<rparr>" by auto
  show ?thesis
  proof (cases cfg)
    case None
    with c w1 show ?thesis by (auto simp: save_guild_data_def cache_write_def)
  next
    case (Some config)
    obtain ok w2 where j: "jsonbin_put env (bin_id config) (master_key config) d w1 = (ok, w2)"
      by force
    with jsonbin_put_frame [of env "bin_id config" "master_key config" d w1] obtain t' where
      "w2 = w1\<lparr>trace := trace w1 @ t'\<rparr>" by auto
    with Some c w1 j show ?thesis by (auto simp: save_guild_data_def cache_write_def)
  qed
qed

lemma http_count_simps [simp]:
  "http_count (w\<lparr>trace := trace w @ [Http rq]\<rparr>) = Suc (http_count w)"
  "http_count (sleep s w) = http_count w"
  "http_count (w\<lparr>guild_cache := c\<rparr>) = http_count w"
  "http_count (cache_write g d w) = http_count w"
  by (simp_all add: http_count_def sleep_def cache_write_def)

lemma http_eq:
  "http env rq w = (http_response env (http_count w), w\<lparr>trace := trace w @ [Http rq]\<rparr>)"
  by (simp add: http_def http_count_def)

lemma jsonbin_get_loop_all_fail:
  "(\<forall>i<n. failed_get (http_response env (http_count w + i))) \<Longrightarrow>
   jsonbin_get_loop env b k n w =
     (empty_record, w\<lparr>trace := trace w @ concat (replicate n [Http (Get b k), Sleep 1])\<rparr>)"
proof (induction n arbitrary: w)
  case 0
  then show ?case by simp
next
  case (Suc n)
  let ?w1 = "sleep 1 (w\<lparr>trace := trace w @ [Http (Get b k)]\<rparr>)"
  from Suc.prems have first: "failed_get (http_response env (http_count w))"
    by (metis add.right_neutral zero_less_Suc)
  have "\<forall>i<n. failed_get (http_response env (http_count ?w1 + i))"
  proof (intro allI impI)
    fix i assume "i < n"
    then have "Suc i < Suc n" by simp
    with Suc.prems have "failed_get (http_response env (http_count w + Suc i))" by blast
    then show "failed_get (http_response env (http_count ?w1 + i))" by simp
  qed
  from Suc.IH [OF this] have ih: "jsonbin_get_loop env b k n ?w1 =
     (empty_record, ?w1\<lparr>trace := trace ?w1 @ concat (replicate n [Http (Get b k), Sleep 1])\<rparr>)" .
  show ?case
    using first ih
    by (cases "http_response env (http_count w)") (simp_all add: http_eq, simp_all add: sleep_def)
qed

lemma jsonbin_put_loop_all_fail:
  "(\<forall>i<n. failed_put (http_response env (http_count w + i))) \<Longrightarrow>
   jsonbin_put_loop env b k r n w =
     (False, w\<lparr>trace := trace w @ concat (replicate n [Http (Put b k r), Sleep 1])\<rparr>)"
proof (induction n arbitrary: w)
  case 0
  then show ?case by simp
next
  case (Suc n)
  let ?w1 = "sleep 1 (w\<lparr>trace := trace w @ [Http (Put b k r)]\<rparr>)"
  from Suc.prems have first: "failed_put (http_response env (http_count w))"
    by (metis add.right_neutral zero_less_Suc)
  have "\<forall>i<n. failed_put (http_response env (http_count ?w1 + i))"
  proof (intro allI impI)
    fix i assume "i < n"
    then have "Suc i < Suc n" by simp
    with Suc.prems have "failed_put (http_response env (http_count w + Suc i))" by blast
    then show "failed_put (http_response env (http_count ?w1 + i))" by simp
  qed
  from Suc.IH [OF this] have ih: "jsonbin_put_loop env b k r n ?w1 =
     (False, ?w1\<lparr>trace := trace ?w1 @ concat (replicate n [Http (Put b k r), Sleep 1])\<rparr>)" .
  show ?case
    using first ih
    by (cases "http_response env (http_count w)") (simp_all add: http_eq, simp_all add: sleep_def)
qed

text \<open>The loop of \<^verbatim>\<open>_jsonbin_put\<close> returns \<^verbatim>\<open>False\<close> exactly when every attempt fails.\<close>

lemma jsonbin_put_loop_False:
  "(\<not> fst (jsonbin_put_loop env b k r n w)) \<longleftrightarrow>
     (\<forall>i<n. failed_put (http_response env (http_count w + i)))"
proof (induction n arbitrary: w)
  case 0
  then show ?case by simp
next
  case (Suc n)
  let ?w1 = "sleep 1 (w\<lparr>trace := trace w @ [Http (Put b k r)]\<rparr>)"
  have c: "http_count ?w1 = Suc (http_count w)" by simp
  have split: "(\<forall>i<Suc n. failed_put (http_response env (http_count w + i))) \<longleftrightarrow>
      failed_put (http_response env (http_count w))
      \<and> (\<forall>i<n. failed_put (http_response env (http_count ?w1 + i)))"
    unfolding c by (simp add: All_less_Suc2)
  show ?case
    unfolding split Suc.IH [of ?w1, symmetric]
    by (cases "http_response env (http_count w)") (simp_all add: http_eq)
qed

lemma jsonbin_get_first_ok:
  "http_response env (http_count w) = Response 200 body \<Longrightarrow>
   jsonbin_get env b k w =
     ((case body of Some r \<Rightarrow> r | None \<Rightarrow> empty_record), w\<lparr>trace := trace w @ [Http (Get b k)]\<rparr>)"
  by (simp add: jsonbin_get_def numeral_3_eq_3 http_eq)

lemma get_guild_bin_config_first_ok:
  "http_response env (http_count w) = Response 200 (Some root) \<Longrightarrow>
   get_guild_bin_config env g w =
     (or_empty (guild_bin_configs root) g,
      w\<lparr>trace := trace w @ [Http (Get (root_bin_id env) (jsonbin_master_key env))]\<rparr>)"
  by (simp add: get_guild_bin_config_def get_root_record_def jsonbin_get_first_ok)

text \<open>
  Claim C8: when the document of a guild is not cached, \<^verbatim>\<open>load_guild_data\<close> fetches with at
  most three attempts, each failed attempt followed by a sleep of one second, and when
  every attempt fails it returns the empty document and caches it; no error is raised.
  The first fetch is the one of the root document, which holds the bin of the guild:
  when it fails three times the document of the guild is not asked for; when it succeeds,
  the document of the guild is fetched with three attempts.
\<close>

theorem C8_load_guild_data_retries:
  assumes "guild_cache w guild_id = None"
  shows "((\<forall>i<3. failed_get (http_response env (http_count w + i))) \<longrightarrow>
           load_guild_data env guild_id w =
             (empty_record,
              w\<lparr>guild_cache := (guild_cache w)(guild_id \<mapsto> empty_record),
                trace := trace w @
                  [Http (Get (root_bin_id env) (jsonbin_master_key env)), Sleep 1,
                   Http (Get (root_bin_id env) (jsonbin_master_key env)), Sleep 1,
                   Http (Get (root_bin_id env) (jsonbin_master_key env)), Sleep 1,
                   CacheWrite guild_id empty_record]\<rparr>))
       \<and> (http_response env (http_count w) = Response 200 (Some root)
           \<and> or_empty (guild_bin_configs root) guild_id = Some config
           \<and> (\<forall>i<3. failed_get (http_response env (http_count w + 1 + i))) \<longrightarrow>
           load_guild_data env guild_id w =
             (empty_record,
              w\<lparr>guild_cache := (guild_cache w)(guild_id \<mapsto> empty_record),
                trace := trace w @
                  [Http (Get (root_bin_id env) (jsonbin_master_key env)),
                   Http (Get (bin_id config) (master_key config)), Sleep 1,
                   Http (Get (bin_id config) (master_key config)), Sleep 1,
                   Http (Get (bin_id config) (master_key config)), Sleep 1,
                   CacheWrite guild_id empty_record]\<rparr>))"
proof (intro conjI impI)
  assume f: "\<forall>i<3. failed_get (http_response env (http_count w + i))"
  have "get_guild_bin_config env guild_id w =
      (None, w\<lparr>trace := trace w @ concat (replicate 3
          [Http (Get (root_bin_id env) (jsonbin_master_key env)), Sleep 1])\<rparr>)"
    by (simp add: get_guild_bin_config_def get_root_record_def jsonbin_get_def
        jsonbin_get_loop_all_fail [OF f] empty_record_def)
  with assms show "load_guild_data env guild_id w =
             (empty_record,
              w\<lparr>guild_cache := (guild_cache w)(guild_id \<mapsto> empty_record),
                trace := trace w @
                  [Http (Get (root_bin_id env) (jsonbin_master_key env)), Sleep 1,
                   Http (Get (root_bin_id env) (jsonbin_master_key env)), Sleep 1,
                   Http (Get (root_bin_id env) (jsonbin_master_key env)), Sleep 1,
                   CacheWrite guild_id empty_record]\<rparr>)"
    by (simp add: load_guild_data_def cache_write_def numeral_3_eq_3)
next
  assume a: "http_response env (http_count w) = Response 200 (Some root)
           \<and> or_empty (guild_bin_configs root) guild_id = Some config
           \<and> (\<forall>i<3. failed_get (http_response env (http_count w + 1 + i)))"
  let ?w1 = "w\<lparr>trace := trace w @ [Http (Get (root_bin_id env) (jsonbin_master_key env))]\<rparr>"
  from a have c: "get_guild_bin_config env guild_id w = (Some config, ?w1)"
    by (simp add: get_guild_bin_config_first_ok)
  from a have f: "\<forall>i<3. failed_get (http_response env (http_count ?w1 + i))" by simp
  have j: "jsonbin_get env (bin_id config) (master_key config) ?w1 =
      (empty_record, ?w1\<lparr>trace := trace ?w1 @ concat (replicate 3
          [Http (Get (bin_id config) (master_key config)), Sleep 1])\<rparr>)"
    unfolding jsonbin_get_def by (rule jsonbin_get_loop_all_fail [OF f])
  from assms c j show "load_guild_data env guild_id w =
             (empty_record,
              w\<lparr>guild_cache := (guild_cache w)(guild_id \<mapsto> empty_record),
                trace := trace w @
                  [Http (Get (root_bin_id env) (jsonbin_master_key env)),
                   Http (Get (bin_id config) (master_key config)), Sleep 1,
                   Http (Get (bin_id config) (master_key config)), Sleep 1,
                   Http (Get (bin_id config) (master_key config)), Sleep 1,
                   CacheWrite guild_id empty_record]\<rparr>)"
    by (simp add: load_guild_data_def cache_write_def numeral_3_eq_3)
qed

text \<open>
  Claim C8 on the empty state, with a network that is down and with one that answers
  the first request only.
\<close>

theorem C8_load_guild_data_retries_witness:
  "guild_cache world0 ''1'' = None
   \<and> load_guild_data (pong_env net_down) ''1'' world0 =
       (empty_record,
        world0\<lparr>guild_cache := (guild_cache world0)(''1'' \<mapsto> empty_record),
          trace := trace world0 @
            [Http (Get ''root'' ''rootkey''), Sleep 1,
             Http (Get ''root'' ''rootkey''), Sleep 1,
             Http (Get ''root'' ''rootkey''), Sleep 1,
             CacheWrite ''1'' empty_record]\<rparr>)
   \<and> load_guild_data (pong_env net_root_only) ''1'' world0 =
       (empty_record,
        world0\<lparr>guild_cache := (guild_cache world0)(''1'' \<mapsto> empty_record),
          trace := trace world0 @
            [Http (Get ''root'' ''rootkey''),
             Http (Get ''bin1'' ''key1''), Sleep 1,
             Http (Get ''bin1'' ''key1''), Sleep 1,
             Http (Get ''bin1'' ''key1''), Sleep 1,
             CacheWrite ''1'' empty_record]\<rparr>)"
proof -
  have c: "guild_cache world0 ''1'' = None" by (simp add: world0_def)
  have n: "http_count world0 = 0" by (simp add: http_count_def world0_def)
  have 1: "\<forall>i<3. failed_get (http_response (pong_env net_down) (http_count world0 + i))"
    by (simp add: pong_env_def bot_env_def net_down_def)
  have 2: "http_response (pong_env net_root_only) (http_count world0)
             = Response 200 (Some root_doc)
           \<and> or_empty (guild_bin_configs root_doc) ''1''
             = Some \<lparr>bin_id = ''bin1'', master_key = ''key1''\<rparr>
           \<and> (\<forall>i<3. failed_get (http_response (pong_env net_root_only)
                 (http_count world0 + 1 + i)))"
    by (simp add: pong_env_def bot_env_def net_root_only_def n root_doc_def)
  from C8_load_guild_data_retries [OF c, of "pong_env net_down"] 1
    C8_load_guild_data_retries [OF c, of "pong_env net_root_only" root_doc
      "\<lparr>bin_id = ''bin1'', master_key = ''key1''\<rparr>"] 2 c
  show ?thesis by (simp add: pong_env_def bot_env_def)
qed

lemma save_dynamic_command_frame:
  "\<exists>doc t.
     snd (save_dynamic_command env g n code descr w) =
       w\<lparr>dynamic_commands_cache :=
            (dynamic_commands_cache w)(g \<mapsto> (or_empty (dynamic_commands_cache w g))
               (n \<mapsto> CmdDict code (Some (description_or_default descr n)))),
         guild_cache := (guild_cache w)(g \<mapsto> doc),
         trace := trace w @ t\<rparr>
     \<and> or_empty (dynamic_commands doc) n
         = Some (CmdDict code (Some (description_or_default descr n)))"
proof -
  let ?entry = "CmdDict code (Some (description_or_default descr n))"
  let ?w0 = "w\<lparr>dynamic_commands_cache :=
            (dynamic_commands_cache w)(g \<mapsto> (or_empty (dynamic_commands_cache w g))
               (n \<mapsto> ?entry))\<rparr>"
  from load_guild_data_frame [of env g ?w0] obtain c t where
    l: "load_guild_data env g ?w0 =
          (c, ?w0\<lparr>guild_cache := (guild_cache ?w0)(g \<mapsto> c), trace := trace ?w0 @ t\<rparr>)"
    by blast
  let ?w1 = "?w0\<lparr>guild_cache := (guild_cache ?w0)(g \<mapsto> c), trace := trace ?w0 @ t\<rparr>"
  let ?doc = "c\<lparr>dynamic_commands := Some ((or_empty (dynamic_commands c))(n \<mapsto> ?entry))\<rparr>"
  from save_guild_data_frame [of env g ?doc ?w1] obtain t' where
    s: "snd (save_guild_data env g ?doc ?w1) =
          ?w1\<lparr>guild_cache := (guild_cache ?w1)(g \<mapsto> ?doc),
              trace := trace ?w1 @ CacheWrite g ?doc # t'\<rparr>"
    by blast
  have "snd (save_dynamic_command env g n code descr w) = snd (save_guild_data env g ?doc ?w1)"
    using l by (simp add: save_dynamic_command_def Let_def)
  with s have "snd (save_dynamic_command env g n code descr w) =
       w\<lparr>dynamic_commands_cache :=
            (dynamic_commands_cache w)(g \<mapsto> (or_empty (dynamic_commands_cache w g))
               (n \<mapsto> ?entry)),
         guild_cache := (guild_cache w)(g \<mapsto> ?doc),
         trace := trace w @ (t @ CacheWrite g ?doc # t')\<rparr>"
    by simp
  moreover have "or_empty (dynamic_commands ?doc) n = Some ?entry" by simp
  ultimately show ?thesis by blast
qed

lemma save_guild_data_result:
  assumes "get_guild_bin_config env g (cache_write g d w) = (cfg, w1)"
  shows "fst (save_guild_data env g d w) = False \<longleftrightarrow>
     (case cfg of
        None \<Rightarrow> True
      | Some config \<Rightarrow> \<forall>i<3. failed_put (http_response env (http_count w1 + i)))"
  using assms
  by (cases cfg) (simp_all add: save_guild_data_def jsonbin_put_def jsonbin_put_loop_False)

text \<open>
  Claim C9: \<^verbatim>\<open>save_guild_data\<close> assigns the document to the cache before it does anything
  else: the assignment is the first event that the call adds to the trace, so that the
  lookup of the bin and every attempt of the write come after it. The cache holds the
  document when the call returns, whatever the network does, and the registry is not
  touched. The call returns \<^verbatim>\<open>False\<close> exactly when no bin is configured for the guild or
  each of the three attempts of the write fails; in the latter case the three attempts,
  each followed by a sleep of one second, end the trace. The entry that
  \<^verbatim>\<open>save_dynamic_command\<close> puts into the in-memory map and into the cached document stays
  there whatever the write returns.
\<close>

theorem C9_save_guild_data_cache_first:
  "(\<exists>t. snd (save_guild_data env g d w) =
          w\<lparr>guild_cache := (guild_cache w)(g \<mapsto> d), trace := trace w @ CacheWrite g d # t\<rparr>)
   \<and> guild_cache (snd (save_guild_data env g d w)) g = Some d
   \<and> same_registry w (snd (save_guild_data env g d w))
   \<and> (get_guild_bin_config env g (cache_write g d w) = (cfg, w1) \<longrightarrow>
        (fst (save_guild_data env g d w) = False \<longleftrightarrow>
           (case cfg of
              None \<Rightarrow> True
            | Some config \<Rightarrow> \<forall>i<3. failed_put (http_response env (http_count w1 + i)))))
   \<and> (get_guild_bin_config env g (cache_write g d w) = (Some config, w1)
        \<and> (\<forall>i<3. failed_put (http_response env (http_count w1 + i))) \<longrightarrow>
      save_guild_data env g d w =
        (False,
         w1\<lparr>trace := trace w1 @
             [Http (Put (bin_id config) (master_key config) d), Sleep 1,
              Http (Put (bin_id config) (master_key config) d), Sleep 1,
              Http (Put (bin_id config) (master_key config) d), Sleep 1]\<rparr>)
      \<and> guild_cache w1 g = Some d
      \<and> (\<exists>t1. trace w1 = trace w @ CacheWrite g d # t1))
   \<and> or_empty (dynamic_commands_cache (snd (save_dynamic_command env g n code descr w)) g) n
       = Some (CmdDict code (Some (description_or_default descr n)))
   \<and> (\<exists>doc. guild_cache (snd (save_dynamic_command env g n code descr w)) g = Some doc
        \<and> or_empty (dynamic_commands doc) n
            = Some (CmdDict code (Some (description_or_default descr n))))"
proof (intro conjI impI)
  show "\<exists>t. snd (save_guild_data env g d w) =
          w\<lparr>guild_cache := (guild_cache w)(g \<mapsto> d), trace := trace w @ CacheWrite g d # t\<rparr>"
    by (rule save_guild_data_frame)
  show "guild_cache (snd (save_guild_data env g d w)) g = Some d"
    using save_guild_data_frame [of env g d w] by auto
  show "same_registry w (snd (save_guild_data env g d w))"
    using save_guild_data_frame [of env g d w] by auto
next
  assume "get_guild_bin_config env g (cache_write g d w) = (cfg, w1)"
  then show "fst (save_guild_data env g d w) = False \<longleftrightarrow>
           (case cfg of
              None \<Rightarrow> True
            | Some config \<Rightarrow> \<forall>i<3. failed_put (http_response env (http_count w1 + i)))"
    by (rule save_guild_data_result)
next
  assume a: "get_guild_bin_config env g (cache_write g d w) = (Some config, w1)
        \<and> (\<forall>i<3. failed_put (http_response env (http_count w1 + i)))"
  then have f: "\<forall>i<3. failed_put (http_response env (http_count w1 + i))" by simp
  have j: "jsonbin_put env (bin_id config) (master_key config) d w1 =
      (False, w1\<lparr>trace := trace w1 @ concat (replicate 3
          [Http (Put (bin_id config) (master_key config) d), Sleep 1])\<rparr>)"
    unfolding jsonbin_put_def by (rule jsonbin_put_loop_all_fail [OF f])
  from a j show "save_guild_data env g d w =
        (False,
         w1\<lparr>trace := trace w1 @
             [Http (Put (bin_id config) (master_key config) d), Sleep 1,
              Http (Put (bin_id config) (master_key config) d), Sleep 1,
              Http (Put (bin_id config) (master_key config) d), Sleep 1]\<rparr>)"
    by (simp add: save_guild_data_def numeral_3_eq_3)
  from get_guild_bin_config_frame [of env g "cache_write g d w"] a obtain t where
    w1: "w1 = (cache_write g d w)\<lparr>trace := trace (cache_write g d w) @ t\<rparr>" by auto
  show "guild_cache w1 g = Some d" unfolding w1 by (simp add: cache_write_def)
  show "\<exists>t1. trace w1 = trace w @ CacheWrite g d # t1"
    unfolding w1 by (simp add: cache_write_def)
next
  from save_dynamic_command_frame [of env g n code descr w]
  show "or_empty (dynamic_commands_cache (snd (save_dynamic_command env g n code descr w)) g) n
       = Some (CmdDict code (Some (description_or_default descr n)))"
    by auto
  from save_dynamic_command_frame [of env g n code descr w]
  show "\<exists>doc. guild_cache (snd (save_dynamic_command env g n code descr w)) g = Some doc
        \<and> or_empty (dynamic_commands doc) n
            = Some (CmdDict code (Some (description_or_default descr n)))"
    by auto
qed

text \<open>
  Claim C9 on the empty state, with a network that answers the lookup of the bin and
  then fails.
\<close>

theorem C9_save_guild_data_cache_first_witness:
  "get_guild_bin_config (pong_env net_root_only) ''1'' (cache_write ''1'' guild_doc world0)
     = (Some \<lparr>bin_id = ''bin1'', master_key = ''key1''\<rparr>,
        world0\<lparr>guild_cache := [''1'' \<mapsto> guild_doc],
          trace := [CacheWrite ''1'' guild_doc, Http (Get ''root'' ''rootkey'')]\<rparr>)
   \<and> save_guild_data (pong_env net_root_only) ''1'' guild_doc world0 =
     (False,
      world0\<lparr>guild_cache := [''1'' \<mapsto> guild_doc],
        trace :=
          [CacheWrite ''1'' guild_doc,
           Http (Get ''root'' ''rootkey''),
           Http (Put ''bin1'' ''key1'' guild_doc), Sleep 1,
           Http (Put ''bin1'' ''key1'' guild_doc), Sleep 1,
           Http (Put ''bin1'' ''key1'' guild_doc), Sleep 1]\<rparr>)"
proof -
  let ?env = "pong_env net_root_only"
  let ?w1 = "world0\<lparr>guild_cache := [''1'' \<mapsto> guild_doc],
          trace := [CacheWrite ''1'' guild_doc, Http (Get ''root'' ''rootkey'')]\<rparr>"
  have r: "root_bin_id ?env = ''root''" "jsonbin_master_key ?env = ''rootkey''"
    "http_response ?env = net_root_only"
    by (simp_all add: pong_env_def bot_env_def)
  have n: "http_count world0 = 0"
    by (simp add: http_count_def world0_def)
  have c: "get_guild_bin_config ?env ''1'' (cache_write ''1'' guild_doc world0)
     = (Some \<lparr>bin_id = ''bin1'', master_key = ''key1''\<rparr>, ?w1)"
    by (simp add: get_guild_bin_config_first_ok [where root = root_doc]
        r n net_root_only_def)
      (simp add: root_doc_def cache_write_def world0_def)
  have n1: "http_count ?w1 = 1" by (simp add: http_count_def world0_def)
  have f: "\<forall>i<3. failed_put (http_response ?env (http_count ?w1 + i))"
    by (simp add: r n1 net_root_only_def)
  from C9_save_guild_data_cache_first [of ?env "''1''" guild_doc world0
      "Some \<lparr>bin_id = ''bin1'', master_key = ''key1''\<rparr>" ?w1
      "\<lparr>bin_id = ''bin1'', master_key = ''key1''\<rparr>"] c f
  have "save_guild_data ?env ''1'' guild_doc world0 =
        (False,
         ?w1\<lparr>trace := trace ?w1 @
             [Http (Put ''bin1'' ''key1'' guild_doc), Sleep 1,
              Http (Put ''bin1'' ''key1'' guild_doc), Sleep 1,
              Http (Put ''bin1'' ''key1'' guild_doc), Sleep 1]\<rparr>)"
    by simp
  with c show ?thesis by simp
qed


section \<open>Properties of the registry\<close>

lemma int_of_text_1: "int_of_text ''1'' = Some 1"
  by (simp add: int_of_text_def)

lemma str_of_int_1: "str_of_int 1 = ''1''"
proof -
  have "char_of (49 :: nat) = CHR ''1''" by (simp add: char_of_def bit_iff_odd)
  then show ?thesis by (simp add: str_of_int_def str_of_nat.simps [of "Suc 0"])
qed

lemma pong_env_simps:
  "stack_room (pong_env net) = 900"
  "ast_parse (pong_env net) = parse_as src_pong tree_pong"
  "exec_code (pong_env net) src_pong w = (Callable (), w)"
  "command_error (pong_env net) = refuse_blank"
  "add_command_error (pong_env net) = accept_all"
  "http_response (pong_env net) = net"
  "py_int (pong_env net) = int_of_text"
  "py_str (pong_env net) 1 = ''1''"
  "root_bin_id (pong_env net) = ''root''"
  "jsonbin_master_key (pong_env net) = ''rootkey''"
  by (simp_all add: pong_env_def bot_env_def body_pong_def str_of_int_1)

lemma remove_command_absent:
  "bot_tree w (guild_obj, cmd_name) = None \<Longrightarrow> remove_command guild_obj cmd_name w = w"
  by (simp add: remove_command_def fun_upd_idem)

lemma remove_command_if:
  "(if bot_tree w (guild_obj, cmd_name) \<noteq> None then remove_command guild_obj cmd_name w else w)
     = remove_command guild_obj cmd_name w"
  by (simp add: remove_command_absent)

text \<open>
  A registration that does not succeed has either stopped at the validator, and left the
  state as it was, or executed the code, and left the state that the module body of the
  code left, less the entry of the command in the tree once a callable \<^verbatim>\<open>run\<close> was found.
\<close>

lemma register_failure:
  assumes "register_dynamic_command env g n code descr w = (r, w')"
    and "r \<noteq> Returns (True, None)"
  shows "(validate_user_code (stack_room env) (ast_parse env) code \<noteq> Inr () \<longrightarrow> w' = w)
       \<and> (validate_user_code (stack_room env) (ast_parse env) code = Inr ()
            \<and> (\<forall>f. fst (exec_code env code w) \<noteq> Callable f) \<longrightarrow>
              w' = snd (exec_code env code w))
       \<and> (validate_user_code (stack_room env) (ast_parse env) code = Inr ()
            \<and> (\<exists>f. fst (exec_code env code w) = Callable f) \<longrightarrow>
              w' = remove_command (guild_of env (snd (exec_code env code w)) g) n
                     (snd (exec_code env code w)))
       \<and> ((\<exists>e. r = Returns (False, Some e)) \<or> (\<exists>e. r = Raises e))"
proof (cases "validate_user_code (stack_room env) (ast_parse env) code")
  case (Inl e)
  with assms show ?thesis
    by (cases e) (auto simp: register_dynamic_command_def)
next
  case (Inr u)
  obtain x wx where x: "exec_code env code w = (x, wx)" by force
  show ?thesis
  proof (cases x)
    case (ExecRaised e tb)
    with Inr x assms show ?thesis
      by (auto simp: register_dynamic_command_def split: if_splits)
  next
    case (RunTestRaised e)
    with Inr x assms show ?thesis by (auto simp: register_dynamic_command_def)
  next
    case NoCallableRun
    with Inr x assms show ?thesis by (auto simp: register_dynamic_command_def)
  next
    case (Callable f)
    with Inr x assms show ?thesis
      unfolding register_dynamic_command_def Let_def remove_command_if
      by (auto split: option.splits if_splits)
  qed
qed

lemma register_failure_frame:
  assumes "register_dynamic_command env g n code descr w = (r, w')"
    and "r \<noteq> Returns (True, None)"
    and "validate_user_code (stack_room env) (ast_parse env) code \<noteq> Inr ()
           \<or> snd (exec_code env code w) = w"
  shows "dynamic_commands_cache w' = dynamic_commands_cache w
       \<and> guild_cache w' = guild_cache w
       \<and> bot_guilds w' = bot_guilds w
       \<and> trace w' = trace w
       \<and> (\<forall>k. k \<noteq> (guild_of env w g, n) \<longrightarrow> bot_tree w' k = bot_tree w k)
       \<and> (\<forall>k. bot_tree w' k = None \<or> bot_tree w' k = bot_tree w k)"
proof -
  note f = register_failure [OF assms(1,2)]
  have "w' = w \<or> w' = remove_command (guild_of env w g) n w"
  proof (cases "validate_user_code (stack_room env) (ast_parse env) code = Inr ()")
    case False
    with f show ?thesis by blast
  next
    case True
    with assms(3) have x: "snd (exec_code env code w) = w" by blast
    show ?thesis
    proof (cases "\<exists>f. fst (exec_code env code w) = Callable f")
      case True
      with f \<open>validate_user_code (stack_room env) (ast_parse env) code = Inr ()\<close>
      have "w' = remove_command (guild_of env (snd (exec_code env code w)) g) n
                     (snd (exec_code env code w))"
        by blast
      then show ?thesis unfolding x by blast
    next
      case False
      with f \<open>validate_user_code (stack_room env) (ast_parse env) code = Inr ()\<close>
      have "w' = snd (exec_code env code w)" by blast
      then show ?thesis unfolding x by blast
    qed
  qed
  then show ?thesis by (auto simp: remove_command_def)
qed

lemma delete_dynamic_command_from_store_frame:
  "\<exists>ok doc t.
     delete_dynamic_command_from_store env g n w =
       (ok, w\<lparr>dynamic_commands_cache :=
                 (case dynamic_commands_cache w g of
                    None \<Rightarrow> dynamic_commands_cache w
                  | Some cmds \<Rightarrow> (dynamic_commands_cache w)(g \<mapsto> cmds(n := None))),
               guild_cache := (guild_cache w)(g \<mapsto> doc),
               trace := trace w @ t\<rparr>)"
proof -
  let ?D = "case dynamic_commands_cache w g of
              None \<Rightarrow> dynamic_commands_cache w
            | Some cmds \<Rightarrow> (dynamic_commands_cache w)(g \<mapsto> cmds(n := None))"
  let ?w0 = "w\<lparr>dynamic_commands_cache := ?D\<rparr>"
  have w0: "(case dynamic_commands_cache w g of
                  None \<Rightarrow> w
                | Some cmds \<Rightarrow>
                    w\<lparr>dynamic_commands_cache :=
                        (dynamic_commands_cache w)(g \<mapsto> cmds(n := None))\<rparr>) = ?w0"
    by (simp split: option.splits)
  from load_guild_data_frame [of env g ?w0] obtain c t where
    l: "load_guild_data env g ?w0 =
          (c, ?w0\<lparr>guild_cache := (guild_cache ?w0)(g \<mapsto> c), trace := trace ?w0 @ t\<rparr>)"
    by blast
  let ?w1 = "?w0\<lparr>guild_cache := (guild_cache ?w0)(g \<mapsto> c), trace := trace ?w0 @ t\<rparr>"
  show ?thesis
  proof (cases "dynamic_commands c")
    case None
    have "delete_dynamic_command_from_store env g n w = (True, ?w1)"
      using l None by (simp add: delete_dynamic_command_from_store_def w0)
    then show ?thesis by auto
  next
    case (Some cmds)
    let ?doc = "c\<lparr>dynamic_commands := Some (cmds(n := None))\<rparr>"
    obtain ok w2 where s: "save_guild_data env g ?doc ?w1 = (ok, w2)" by force
    with save_guild_data_frame [of env g ?doc ?w1] obtain t' where
      w2: "w2 = ?w1\<lparr>guild_cache := (guild_cache ?w1)(g \<mapsto> ?doc),
                    trace := trace ?w1 @ CacheWrite g ?doc # t'\<rparr>"
      by auto
    have "delete_dynamic_command_from_store env g n w = (ok, w2)"
      using l Some s by (simp add: delete_dynamic_command_from_store_def w0)
    with w2 have "delete_dynamic_command_from_store env g n w =
       (ok, w\<lparr>dynamic_commands_cache := ?D,
               guild_cache := (guild_cache w)(g \<mapsto> ?doc),
               trace := trace w @ (t @ CacheWrite g ?doc # t')\<rparr>)"
      by simp
    then show ?thesis by blast
  qed
qed

lemma or_empty_deleted:
  "or_empty ((case D g of None \<Rightarrow> D | Some cmds \<Rightarrow> D(g \<mapsto> cmds(n := None))) g)
     = (or_empty (D g))(n := None)"
  by (cases "D g") auto

lemma validate_pong:
  "validate_user_code 900 (parse_as src_pong tree_pong) src_pong = Inr ()"
  by (simp add: validate_user_code_parsed [OF parse_as_same] tree_pong_def src_pong_def)

lemma validate_remove:
  "validate_user_code 900 (parse_as src_remove tree_remove) src_remove = Inr ()"
  by (simp add: validate_user_code_parsed [OF parse_as_same] tree_remove_def src_remove_def
      deny_list_def startswith_def)

lemma register_remove:
  "register_dynamic_command remove_env ''1'' ''ping'' src_remove (Some ''pings'') world_ping
     = (Returns (False,
          Some (''Execution error: division by zero'' @ [CHR 0x0A] @ ''Traceback'')),
        remove_command (Some 1) ''ping'' world_ping)"
  by (simp add: register_dynamic_command_def remove_env_def bot_env_def validate_remove
      body_remove_def world_ping_def)

text \<open>
  Claim C2, as stated, fails: the code is executed before it is known whether the
  registration succeeds, with the bot among its globals. The module body of the source
  below takes the command \<^verbatim>\<open>ping\<close> out of the tree and then raises; the registration
  returns the execution error, and the command that existed is no longer in the tree.
\<close>

theorem C2_existing_entry_lost:
  "bot_tree world_ping (Some 1, ''ping'') = Some \<lparr>description = ''pings'', run_func = ()\<rparr>
   \<and> validate_user_code (stack_room remove_env) (ast_parse remove_env) src_remove = Inr ()
   \<and> fst (register_dynamic_command remove_env ''1'' ''ping'' src_remove (Some ''pings'')
        world_ping)
      = Returns (False,
          Some (''Execution error: division by zero'' @ [CHR 0x0A] @ ''Traceback''))
   \<and> bot_tree (snd (register_dynamic_command remove_env ''1'' ''ping'' src_remove
        (Some ''pings'') world_ping)) (Some 1, ''ping'') = None"
proof -
  have "validate_user_code (stack_room remove_env) (ast_parse remove_env) src_remove = Inr ()"
    using validate_remove by (simp add: remove_env_def bot_env_def)
  then show ?thesis
    by (simp add: register_remove) (simp add: world_ping_def remove_command_def)
qed

text \<open>
  Claim C2, amended: a registration that does not succeed and stops at the validator
  leaves the state exactly as it was. Otherwise the code has been executed, and the
  state is the one that its module body has left; once a callable \<^verbatim>\<open>run\<close> was found, the
  entry of the tree for the guild and the name has been removed in addition, and is not
  restored when the command cannot be built or added. In particular, when the module
  body leaves the state alone, the in-memory map, the cached documents, the guilds and
  the trace are as before, and so is every entry of the tree but the one of the guild
  and the name.
\<close>

theorem C2_register_failure_state:
  assumes "register_dynamic_command env g n code descr w = (r, w')"
    and "r \<noteq> Returns (True, None)"
  shows "(validate_user_code (stack_room env) (ast_parse env) code \<noteq> Inr () \<longrightarrow> w' = w)
       \<and> (validate_user_code (stack_room env) (ast_parse env) code = Inr ()
            \<and> (\<forall>f. fst (exec_code env code w) \<noteq> Callable f) \<longrightarrow>
              w' = snd (exec_code env code w))
       \<and> (validate_user_code (stack_room env) (ast_parse env) code = Inr ()
            \<and> (\<exists>f. fst (exec_code env code w) = Callable f) \<longrightarrow>
              w' = remove_command (guild_of env (snd (exec_code env code w)) g) n
                     (snd (exec_code env code w)))
       \<and> (validate_user_code (stack_room env) (ast_parse env) code \<noteq> Inr ()
            \<or> snd (exec_code env code w) = w \<longrightarrow>
              dynamic_commands_cache w' = dynamic_commands_cache w
              \<and> guild_cache w' = guild_cache w
              \<and> bot_guilds w' = bot_guilds w
              \<and> trace w' = trace w
              \<and> (\<forall>k. k \<noteq> (guild_of env w g, n) \<longrightarrow> bot_tree w' k = bot_tree w k))"
  using register_failure [OF assms] register_failure_frame [OF assms] by blast

text \<open>
  The amended claim C2 on the state with \<^verbatim>\<open>ping\<close>: a text that does not parse leaves the
  state as it was; the source whose module body removes \<^verbatim>\<open>ping\<close> and raises leaves the
  state that its module body left.
\<close>

theorem C2_register_failure_state_witness:
  "register_dynamic_command (pong_env net_down) ''1'' ''ping'' src_broken None world_ping
     = (Returns (False, Some ''Invalid Python syntax: invalid syntax''), world_ping)
   \<and> validate_user_code (stack_room remove_env) (ast_parse remove_env) src_remove = Inr ()
   \<and> exec_code remove_env src_remove world_ping
       = (ExecRaised (Exception ''division by zero'') ''Traceback'',
          remove_command (Some 1) ''ping'' world_ping)
   \<and> snd (register_dynamic_command remove_env ''1'' ''ping'' src_remove (Some ''pings'')
        world_ping) = remove_command (Some 1) ''ping'' world_ping"
proof -
  have ne: "src_broken \<noteq> src_pong" by (simp add: src_broken_def src_pong_def)
  have a: "register_dynamic_command (pong_env net_down) ''1'' ''ping'' src_broken None
       world_ping
     = (Returns (False, Some ''Invalid Python syntax: invalid syntax''), world_ping)"
    using ne by (simp add: register_dynamic_command_def pong_env_simps validate_user_code_def
        parse_as_def)
  have v: "validate_user_code (stack_room remove_env) (ast_parse remove_env) src_remove = Inr ()"
    using validate_remove by (simp add: remove_env_def bot_env_def)
  have x: "exec_code remove_env src_remove world_ping
       = (ExecRaised (Exception ''division by zero'') ''Traceback'',
          remove_command (Some 1) ''ping'' world_ping)"
    by (simp add: remove_env_def bot_env_def body_remove_def world_ping_def)
  obtain r w' where b: "register_dynamic_command remove_env ''1'' ''ping'' src_remove
      (Some ''pings'') world_ping = (r, w')"
    by force
  with register_remove have "r \<noteq> Returns (True, None)" by simp
  from C2_register_failure_state [OF b this] v x
  have "w' = remove_command (Some 1) ''ping'' world_ping" by simp
  with a v x b show ?thesis by simp
qed

lemma delete_command_eq:
  "delete_command env True g n w =
     (case delete_dynamic_command_from_store env (py_str env g) n
             (remove_command (Some g) n w) of
        (ok, w2) \<Rightarrow>
          if \<not> ok then (FailedToDeleteFromStorage, w2)
          else (Deleted n, sync_all_guild_commands w2))"
  unfolding delete_command_def Let_def remove_command_if by simp

lemma rename_command_eq:
  "rename_command env True g old new w =
     (case or_empty (dynamic_commands_cache w (py_str env g)) old of
        None \<Rightarrow> (NotFound old, w)
      | Some cmd_data \<Rightarrow>
          (case delete_dynamic_command_from_store env (py_str env g) old
                  (remove_command (Some g) old w) of
             (ok, w2) \<Rightarrow>
               (case register_dynamic_command env (py_str env g) new (code_of cmd_data)
                       (Some (description_of cmd_data new)) w2 of
                  (Raises e, w3) \<Rightarrow> (Unhandled e, w3)
                | (Returns (success, error), w3) \<Rightarrow>
                    if \<not> success then (Error error, w3)
                    else
                      (case save_dynamic_command env (py_str env g) new (code_of cmd_data)
                              (Some (description_of cmd_data new)) w3 of
                         (saved, w4) \<Rightarrow>
                           (Renamed old new, sync_all_guild_commands w4)))))"
  unfolding rename_command_def Let_def remove_command_if by simp

lemma delete_command_admin:
  assumes "delete_command env True g n w = (reply, w')"
  shows "(reply = Deleted n \<or> reply = FailedToDeleteFromStorage)
       \<and> or_empty (dynamic_commands_cache w' (py_str env g))
           = (or_empty (dynamic_commands_cache w (py_str env g)))(n := None)
       \<and> (\<forall>g'. g' \<noteq> py_str env g \<longrightarrow> dynamic_commands_cache w' g' = dynamic_commands_cache w g')
       \<and> bot_tree w' = (bot_tree w)((Some g, n) := None)
       \<and> bot_guilds w' = bot_guilds w
       \<and> (reply = Deleted n \<longrightarrow> (\<exists>t. trace w' = trace w @ t @ [Sync]))
       \<and> (reply = FailedToDeleteFromStorage \<longleftrightarrow>
            \<not> fst (delete_dynamic_command_from_store env (py_str env g) n
                    (remove_command (Some g) n w)))"
proof -
  define key where "key = py_str env g"
  define w1 where "w1 = remove_command (Some g) n w"
  have dc: "dynamic_commands_cache w1 = dynamic_commands_cache w"
    and tr: "trace w1 = trace w" and gu: "bot_guilds w1 = bot_guilds w"
    and bt: "bot_tree w1 = (bot_tree w)((Some g, n) := None)"
    by (simp_all add: w1_def remove_command_def)
  define D where "D = (case dynamic_commands_cache w1 key of
              None \<Rightarrow> dynamic_commands_cache w1
            | Some cmds \<Rightarrow> (dynamic_commands_cache w1)(key \<mapsto> cmds(n := None)))"
  from delete_dynamic_command_from_store_frame [of env key n w1] obtain ok doc t where
    d: "delete_dynamic_command_from_store env key n w1 =
       (ok, w1\<lparr>dynamic_commands_cache := D,
               guild_cache := (guild_cache w1)(key \<mapsto> doc),
               trace := trace w1 @ t\<rparr>)"
    unfolding D_def by blast
  define w2 where "w2 = w1\<lparr>dynamic_commands_cache := D,
               guild_cache := (guild_cache w1)(key \<mapsto> doc),
               trace := trace w1 @ t\<rparr>"
  have D1: "or_empty (D key) = (or_empty (dynamic_commands_cache w key))(n := None)"
    unfolding D_def dc by (rule or_empty_deleted)
  have D2: "\<forall>g'. g' \<noteq> key \<longrightarrow> D g' = dynamic_commands_cache w g'"
    unfolding D_def dc by (auto split: option.splits)
  have w2: "dynamic_commands_cache w2 = D" "bot_tree w2 = (bot_tree w)((Some g, n) := None)"
    "bot_guilds w2 = bot_guilds w" "trace w2 = trace w @ t"
    by (simp_all add: w2_def dc tr gu bt)
  have "delete_command env True g n w =
      (if \<not> ok then (FailedToDeleteFromStorage, w2)
       else (Deleted n, sync_all_guild_commands w2))"
    unfolding delete_command_eq key_def [symmetric] w1_def [symmetric] d w2_def [symmetric]
    by simp
  with assms have r: "(reply, w') =
      (if \<not> ok then (FailedToDeleteFromStorage, w2)
       else (Deleted n, sync_all_guild_commands w2))"
    by simp
  have ok: "fst (delete_dynamic_command_from_store env key n (remove_command (Some g) n w)) = ok"
    unfolding w1_def [symmetric] d by simp
  show ?thesis
    unfolding key_def [symmetric]
  proof (cases ok)
    case True
    with r have "reply = Deleted n" "w' = sync_all_guild_commands w2" by simp_all
    with D1 D2 w2 ok True show "(reply = Deleted n \<or> reply = FailedToDeleteFromStorage)
       \<and> or_empty (dynamic_commands_cache w' key)
           = (or_empty (dynamic_commands_cache w key))(n := None)
       \<and> (\<forall>g'. g' \<noteq> key \<longrightarrow> dynamic_commands_cache w' g' = dynamic_commands_cache w g')
       \<and> bot_tree w' = (bot_tree w)((Some g, n) := None)
       \<and> bot_guilds w' = bot_guilds w
       \<and> (reply = Deleted n \<longrightarrow> (\<exists>t. trace w' = trace w @ t @ [Sync]))
       \<and> (reply = FailedToDeleteFromStorage \<longleftrightarrow>
            \<not> fst (delete_dynamic_command_from_store env key n
                    (remove_command (Some g) n w)))"
      by (simp add: sync_all_guild_commands_def)
  next
    case False
    with r have "reply = FailedToDeleteFromStorage" "w' = w2" by simp_all
    with D1 D2 w2 ok False show "(reply = Deleted n \<or> reply = FailedToDeleteFromStorage)
       \<and> or_empty (dynamic_commands_cache w' key)
           = (or_empty (dynamic_commands_cache w key))(n := None)
       \<and> (\<forall>g'. g' \<noteq> key \<longrightarrow> dynamic_commands_cache w' g' = dynamic_commands_cache w g')
       \<and> bot_tree w' = (bot_tree w)((Some g, n) := None)
       \<and> bot_guilds w' = bot_guilds w
       \<and> (reply = Deleted n \<longrightarrow> (\<exists>t. trace w' = trace w @ t @ [Sync]))
       \<and> (reply = FailedToDeleteFromStorage \<longleftrightarrow>
            \<not> fst (delete_dynamic_command_from_store env key n
                    (remove_command (Some g) n w)))"
      by simp
  qed
qed

lemma delete_from_store_net_up:
  assumes "trace w = []" and "guild_cache w ''1'' = None"
  shows "fst (delete_dynamic_command_from_store (pong_env net_up) ''1'' n w) = True"
proof -
  let ?env = "pong_env net_up"
  note r = pong_env_simps(9,10,6) [of net_up]
  have cfg: "or_empty (guild_bin_configs root_doc) ''1''
      = Some \<lparr>bin_id = ''bin1'', master_key = ''key1''\<rparr>"
    by (simp add: root_doc_def)
  define w0 where "w0 = (case dynamic_commands_cache w ''1'' of
                  None \<Rightarrow> w
                | Some cmds \<Rightarrow>
                    w\<lparr>dynamic_commands_cache :=
                        (dynamic_commands_cache w)(''1'' \<mapsto> cmds(n := None))\<rparr>)"
  have w0: "trace w0 = []" "guild_cache w0 ''1'' = None"
    using assms by (simp_all add: w0_def split: option.splits)
  define w1 where "w1 = w0\<lparr>trace := [Http (Get ''root'' ''rootkey''), Http (Get ''bin1'' ''key1''),
        CacheWrite ''1'' guild_doc],
      guild_cache := (guild_cache w0)(''1'' \<mapsto> guild_doc)\<rparr>"
  have l: "load_guild_data ?env ''1'' w0 = (guild_doc, w1)"
    using w0
    by (simp add: load_guild_data_def get_guild_bin_config_def get_root_record_def
        jsonbin_get_def numeral_3_eq_3 http_def r net_up_def cfg w1_def cache_write_def)
  have w1: "trace w1 = [Http (Get ''root'' ''rootkey''), Http (Get ''bin1'' ''key1''),
        CacheWrite ''1'' guild_doc]"
    by (simp add: w1_def)
  have s: "fst (save_guild_data ?env ''1'' doc w1) = True" for doc
    using w1
    by (simp add: save_guild_data_def get_guild_bin_config_def get_root_record_def
        jsonbin_get_def jsonbin_put_def numeral_3_eq_3 http_def r net_up_def cfg cache_write_def)
  show ?thesis
    using l s
    by (simp add: delete_dynamic_command_from_store_def w0_def [symmetric] guild_doc_def)
qed

text \<open>
  Claim C5, as stated, fails: deleting a command that is not registered answers that the
  command was deleted; there is no answer for a command that is not found.
\<close>

theorem C5_delete_absent_succeeds:
  "or_empty (dynamic_commands_cache world0 ''1'') ''ping'' = None
   \<and> bot_tree world0 (Some 1, ''ping'') = None
   \<and> py_str (pong_env net_up) 1 = ''1''
   \<and> fst (delete_command (pong_env net_up) True 1 ''ping'' world0) = Deleted ''ping''"
proof -
  let ?env = "pong_env net_up"
  have w: "dynamic_commands_cache world0 ''1'' = None" "bot_tree world0 (Some 1, ''ping'') = None"
    "trace world0 = []" "guild_cache world0 ''1'' = None"
    by (simp_all add: world0_def)
  have d: "fst (delete_dynamic_command_from_store ?env ''1'' ''ping'' world0) = True"
    using w by (intro delete_from_store_net_up)
  have "remove_command (Some 1) ''ping'' world0 = world0"
    using w by (simp add: remove_command_absent)
  with d have "fst (delete_command ?env True 1 ''ping'' world0) = Deleted ''ping''"
    by (cases "delete_dynamic_command_from_store ?env ''1'' ''ping'' world0")
      (simp add: delete_command_eq pong_env_simps)
  with w show ?thesis by (simp add: pong_env_simps)
qed

text \<open>
  Claim C5, amended: for an administrator, \<^verbatim>\<open>delete_command\<close> does not test whether the
  command is registered. In every case the name is afterwards absent from the in-memory
  map of the guild and from the tree, nothing else of the registry changes, and the
  answer is that the command was deleted, with a synchronisation of the tree requested,
  or, exactly when \<^verbatim>\<open>delete_dynamic_command_from_store\<close> returns \<^verbatim>\<open>False\<close>, that the deletion
  from storage failed.
\<close>

theorem C5_delete_never_not_found:
  assumes "delete_command env True g n w = (reply, w')"
  shows "(reply = Deleted n \<or> reply = FailedToDeleteFromStorage)
       \<and> or_empty (dynamic_commands_cache w' (py_str env g))
           = (or_empty (dynamic_commands_cache w (py_str env g)))(n := None)
       \<and> (\<forall>g'. g' \<noteq> py_str env g \<longrightarrow> dynamic_commands_cache w' g' = dynamic_commands_cache w g')
       \<and> bot_tree w' = (bot_tree w)((Some g, n) := None)
       \<and> bot_guilds w' = bot_guilds w
       \<and> (reply = Deleted n \<longrightarrow> (\<exists>t. trace w' = trace w @ t @ [Sync]))
       \<and> (reply = FailedToDeleteFromStorage \<longleftrightarrow>
            \<not> fst (delete_dynamic_command_from_store env (py_str env g) n
                    (remove_command (Some g) n w)))"
  using assms by (rule delete_command_admin)

text \<open>
  The amended claim C5 on the state with \<^verbatim>\<open>ping\<close> and a network that answers.
\<close>

theorem C5_delete_never_not_found_witness:
  "fst (delete_command (pong_env net_up) True 1 ''ping'' world_ping) = Deleted ''ping''
   \<and> or_empty (dynamic_commands_cache
        (snd (delete_command (pong_env net_up) True 1 ''ping'' world_ping)) ''1'')
        ''ping'' = None
   \<and> bot_tree (snd (delete_command (pong_env net_up) True 1 ''ping'' world_ping))
        (Some 1, ''ping'') = None"
proof -
  let ?env = "pong_env net_up"
  obtain reply w' where d: "delete_command ?env True 1 ''ping'' world_ping = (reply, w')"
    by force
  have "fst (delete_dynamic_command_from_store ?env ''1'' ''ping''
      (remove_command (Some 1) ''ping'' world_ping)) = True"
    by (rule delete_from_store_net_up) (simp_all add: remove_command_def world_ping_def)
  then have "fst (delete_command ?env True 1 ''ping'' world_ping) = Deleted ''ping''"
    by (cases "delete_dynamic_command_from_store ?env ''1'' ''ping''
      (remove_command (Some 1) ''ping'' world_ping)") (simp add: delete_command_eq pong_env_simps)
  with C5_delete_never_not_found [OF d] d show ?thesis by (simp add: pong_env_simps)
qed


lemma rename_command_failure:
  assumes old: "or_empty (dynamic_commands_cache w (py_str env g)) old = Some cmd"
    and r: "rename_command env True g old new w = (reply, w')"
    and f: "reply \<noteq> Renamed old new"
  shows "\<exists>w2 rr.
       or_empty (dynamic_commands_cache w2 (py_str env g))
         = (or_empty (dynamic_commands_cache w (py_str env g)))(old := None)
       \<and> (\<forall>g'. g' \<noteq> py_str env g \<longrightarrow> dynamic_commands_cache w2 g' = dynamic_commands_cache w g')
       \<and> bot_tree w2 = (bot_tree w)((Some g, old) := None)
       \<and> bot_guilds w2 = bot_guilds w
       \<and> register_dynamic_command env (py_str env g) new (code_of cmd)
            (Some (description_of cmd new)) w2 = (rr, w')
       \<and> ((\<exists>e. rr = Returns (False, Some e) \<and> reply = Error (Some e))
            \<or> (\<exists>e. rr = Raises e \<and> reply = Unhandled e))
       \<and> (validate_user_code (stack_room env) (ast_parse env) (code_of cmd) \<noteq> Inr ()
            \<or> snd (exec_code env (code_of cmd) w2) = w2 \<longrightarrow>
              or_empty (dynamic_commands_cache w' (py_str env g))
                = (or_empty (dynamic_commands_cache w (py_str env g)))(old := None)
              \<and> (\<forall>g'. g' \<noteq> py_str env g \<longrightarrow>
                    dynamic_commands_cache w' g' = dynamic_commands_cache w g')
              \<and> bot_tree w' (Some g, old) = None
              \<and> (\<forall>k. bot_tree w' k = None \<or> bot_tree w' k = bot_tree w k))"
proof -
  let ?code = "code_of cmd" and ?desc = "description_of cmd new"
  define key where "key = py_str env g"
  define w1 where "w1 = remove_command (Some g) old w"
  have dc: "dynamic_commands_cache w1 = dynamic_commands_cache w"
    and bt: "bot_tree w1 = (bot_tree w)((Some g, old) := None)"
    and gu: "bot_guilds w1 = bot_guilds w"
    by (simp_all add: w1_def remove_command_def)
  define D where "D = (case dynamic_commands_cache w1 key of
              None \<Rightarrow> dynamic_commands_cache w1
            | Some cmds \<Rightarrow> (dynamic_commands_cache w1)(key \<mapsto> cmds(old := None)))"
  from delete_dynamic_command_from_store_frame [of env key old w1] obtain ok doc t where
    d: "delete_dynamic_command_from_store env key old w1 =
       (ok, w1\<lparr>dynamic_commands_cache := D,
               guild_cache := (guild_cache w1)(key \<mapsto> doc),
               trace := trace w1 @ t\<rparr>)"
    unfolding D_def by blast
  define w2 where "w2 = w1\<lparr>dynamic_commands_cache := D,
               guild_cache := (guild_cache w1)(key \<mapsto> doc),
               trace := trace w1 @ t\<rparr>"
  have D1: "or_empty (D key) = (or_empty (dynamic_commands_cache w key))(old := None)"
    unfolding D_def dc by (rule or_empty_deleted)
  have D2: "\<forall>g'. g' \<noteq> key \<longrightarrow> D g' = dynamic_commands_cache w g'"
    unfolding D_def dc by (auto split: option.splits)
  have w2: "dynamic_commands_cache w2 = D" "bot_tree w2 = (bot_tree w)((Some g, old) := None)"
    "bot_guilds w2 = bot_guilds w"
    by (simp_all add: w2_def bt gu)
  obtain rr w3 where reg:
    "register_dynamic_command env key new ?code (Some ?desc) w2 = (rr, w3)" by force
  have eq: "rename_command env True g old new w =
      (case rr of
         Raises e \<Rightarrow> (Unhandled e, w3)
       | Returns (success, error) \<Rightarrow>
           if \<not> success then (Error error, w3)
           else (Renamed old new,
                 sync_all_guild_commands
                   (snd (save_dynamic_command env key new ?code (Some ?desc) w3))))"
    unfolding rename_command_eq old key_def [symmetric] w1_def [symmetric] d w2_def [symmetric]
    using reg [unfolded key_def] old
    by (auto simp: key_def split: result.splits prod.splits)
  from r f eq have fail: "rr \<noteq> Returns (True, None)"
    by (auto split: result.splits)
  from register_failure [OF reg fail] have
    shape: "(\<exists>e. rr = Returns (False, Some e)) \<or> (\<exists>e. rr = Raises e)"
    by blast
  from r eq shape have w': "w' = w3"
    and s: "(\<exists>e. rr = Returns (False, Some e) \<and> reply = Error (Some e))
            \<or> (\<exists>e. rr = Raises e \<and> reply = Unhandled e)"
    by auto
  have frame: "or_empty (dynamic_commands_cache w3 key)
                = (or_empty (dynamic_commands_cache w key))(old := None)
              \<and> (\<forall>g'. g' \<noteq> key \<longrightarrow> dynamic_commands_cache w3 g' = dynamic_commands_cache w g')
              \<and> bot_tree w3 (Some g, old) = None
              \<and> (\<forall>k. bot_tree w3 k = None \<or> bot_tree w3 k = bot_tree w k)"
    if h: "validate_user_code (stack_room env) (ast_parse env) ?code \<noteq> Inr ()
            \<or> snd (exec_code env ?code w2) = w2"
  proof -
    from register_failure_frame [OF reg fail h] have
      a: "dynamic_commands_cache w3 = D"
      and b: "\<forall>k. bot_tree w3 k = None \<or> bot_tree w3 k = ((bot_tree w)((Some g, old) := None)) k"
      using w2 by auto
    from b have c: "bot_tree w3 (Some g, old) = None"
      by (metis fun_upd_same)
    from b have e: "\<forall>k. bot_tree w3 k = None \<or> bot_tree w3 k = bot_tree w k"
      by (metis fun_upd_apply)
    from a D1 D2 c e show ?thesis by simp
  qed
  from w2 D1 D2 reg s frame show ?thesis
    unfolding w' key_def [symmetric] by (intro exI [of _ w2] exI [of _ rr]) simp
qed

lemma register_refused:
  "CHR '' '' \<in> set n \<Longrightarrow>
   register_dynamic_command (pong_env net) g n src_pong descr w =
     (Raises (Other name_error), remove_command (guild_of (pong_env net) w g) n w)"
  by (simp add: register_dynamic_command_def pong_env_simps validate_pong refuse_blank_def
      Let_def remove_command_absent)

lemma old_ping:
  "or_empty (dynamic_commands_cache world_ping (py_str (pong_env net) 1)) ''ping''
     = Some (CmdDict src_pong (Some ''pings''))"
  by (simp add: world_ping_def pong_env_simps)

lemma rename_refused:
  "fst (rename_command (pong_env net) True 1 ''ping'' ''my pong'' world_ping)
     = Unhandled (Other name_error)"
  unfolding rename_command_eq old_ping
  by (auto simp: register_refused split: prod.splits)

text \<open>
  Claim C1, as stated, fails: \<^verbatim>\<open>rename_command\<close> removes the old command from the tree and
  from the store before it registers the new name, so when that registration fails the
  old command is gone. Here the new name has a blank in it and the command cannot be
  built for it.
\<close>

theorem C1_rename_loses_old:
  "or_empty (dynamic_commands_cache world_ping ''1'') ''ping''
     = Some (CmdDict src_pong (Some ''pings''))
   \<and> bot_tree world_ping (Some 1, ''ping'') = Some \<lparr>description = ''pings'', run_func = ()\<rparr>
   \<and> py_str (pong_env net_up) 1 = ''1''
   \<and> fst (rename_command (pong_env net_up) True 1 ''ping'' ''my pong'' world_ping)
       = Unhandled (Other name_error)
   \<and> or_empty (dynamic_commands_cache
        (snd (rename_command (pong_env net_up) True 1 ''ping'' ''my pong'' world_ping))
        ''1'') ''ping'' = None
   \<and> bot_tree (snd (rename_command (pong_env net_up) True 1 ''ping'' ''my pong''
        world_ping)) (Some 1, ''ping'') = None"
proof -
  let ?env = "pong_env net_up"
  have t: "bot_tree world_ping (Some 1, ''ping'')
     = Some \<lparr>description = ''pings'', run_func = ()\<rparr>"
    by (simp add: world_ping_def)
  obtain reply w' where
    r: "rename_command ?env True 1 ''ping'' ''my pong'' world_ping = (reply, w')"
    by force
  with rename_refused [of net_up] have e: "reply = Unhandled (Other name_error)" by simp
  then have "reply \<noteq> Renamed ''ping'' ''my pong''" by simp
  from rename_command_failure [OF old_ping r this]
  have "or_empty (dynamic_commands_cache w' ''1'') ''ping'' = None"
    and "bot_tree w' (Some 1, ''ping'') = None"
    by (auto simp: pong_env_simps)
  with r e t old_ping [of net_up] show ?thesis by (simp add: pong_env_simps)
qed

text \<open>
  Claim C1, amended: when the old name is registered and the renaming does not succeed,
  the registration of the new name was attempted on a state from which the old name had
  been removed, in the in-memory map of the guild and in the tree, and the state that
  the failed registration left is the state after the renaming: nothing restores the old
  name. The answer is the error of the registration, or the exception that escaped it.
  When the registration stopped at the validator, or the module body of the code leaves
  the state alone, the old name is absent from the map and from the tree, the rest of
  that map and the maps of other guilds are as before, and the tree has gained no
  entry, so the new name has not been registered by the call.
\<close>

theorem C1_rename_failure_state:
  assumes "or_empty (dynamic_commands_cache w (py_str env g)) old = Some cmd"
    and "rename_command env True g old new w = (reply, w')"
    and "reply \<noteq> Renamed old new"
  shows "\<exists>w2 rr.
       or_empty (dynamic_commands_cache w2 (py_str env g))
         = (or_empty (dynamic_commands_cache w (py_str env g)))(old := None)
       \<and> (\<forall>g'. g' \<noteq> py_str env g \<longrightarrow> dynamic_commands_cache w2 g' = dynamic_commands_cache w g')
       \<and> bot_tree w2 = (bot_tree w)((Some g, old) := None)
       \<and> bot_guilds w2 = bot_guilds w
       \<and> register_dynamic_command env (py_str env g) new (code_of cmd)
            (Some (description_of cmd new)) w2 = (rr, w')
       \<and> ((\<exists>e. rr = Returns (False, Some e) \<and> reply = Error (Some e))
            \<or> (\<exists>e. rr = Raises e \<and> reply = Unhandled e))
       \<and> (validate_user_code (stack_room env) (ast_parse env) (code_of cmd) \<noteq> Inr ()
            \<or> snd (exec_code env (code_of cmd) w2) = w2 \<longrightarrow>
              or_empty (dynamic_commands_cache w' (py_str env g))
                = (or_empty (dynamic_commands_cache w (py_str env g)))(old := None)
              \<and> (\<forall>g'. g' \<noteq> py_str env g \<longrightarrow>
                    dynamic_commands_cache w' g' = dynamic_commands_cache w g')
              \<and> bot_tree w' (Some g, old) = None
              \<and> (\<forall>k. bot_tree w' k = None \<or> bot_tree w' k = bot_tree w k))"
  using assms by (rule rename_command_failure)

text \<open>
  The amended claim C1 on the state with \<^verbatim>\<open>ping\<close>, renamed to a name with a blank in it
  while the network is down.
\<close>

theorem C1_rename_failure_state_witness:
  "or_empty (dynamic_commands_cache world_ping (py_str (pong_env net_down) 1)) ''ping''
     = Some (CmdDict src_pong (Some ''pings''))
   \<and> fst (rename_command (pong_env net_down) True 1 ''ping'' ''my pong'' world_ping)
       \<noteq> Renamed ''ping'' ''my pong''
   \<and> or_empty (dynamic_commands_cache
        (snd (rename_command (pong_env net_down) True 1 ''ping'' ''my pong'' world_ping))
        ''1'') = Map.empty
   \<and> bot_tree (snd (rename_command (pong_env net_down) True 1 ''ping'' ''my pong''
        world_ping)) (Some 1, ''ping'') = None
   \<and> bot_tree (snd (rename_command (pong_env net_down) True 1 ''ping'' ''my pong''
        world_ping)) (Some 1, ''my pong'') = None"
proof -
  let ?env = "pong_env net_down"
  obtain reply w' where
    r: "rename_command ?env True 1 ''ping'' ''my pong'' world_ping = (reply, w')"
    by force
  with rename_refused [of net_down] have e: "reply = Unhandled (Other name_error)" by simp
  then have f: "reply \<noteq> Renamed ''ping'' ''my pong''" by simp
  have p: "bot_tree world_ping (Some 1, ''my pong'') = None" by (simp add: world_ping_def)
  have m: "(or_empty (dynamic_commands_cache world_ping ''1''))(''ping'' := None) = Map.empty"
    by (simp add: world_ping_def)
  from C1_rename_failure_state [OF old_ping r f] have
    "or_empty (dynamic_commands_cache w' ''1'')
        = (or_empty (dynamic_commands_cache world_ping ''1''))(''ping'' := None)"
    and "bot_tree w' (Some 1, ''ping'') = None"
    and "bot_tree w' (Some 1, ''my pong'') = None
        \<or> bot_tree w' (Some 1, ''my pong'') = bot_tree world_ping (Some 1, ''my pong'')"
    by (auto simp: pong_env_simps)
  with p m r f old_ping [of net_down] show ?thesis by auto
qed


section \<open>Properties of the callback\<close>

text \<open>
  Claim C7, as stated, fails: the callback catches \<^verbatim>\<open>Exception\<close>; a \<^verbatim>\<open>SystemExit\<close> raised by
  the code of the command is no \<^verbatim>\<open>Exception\<close>, escapes the callback, and nothing is
  reported for the invocation.
\<close>

theorem C7_system_exit_escapes:
  "outcome call_system_exit = Raise (BaseException ''SystemExit'')
   \<and> escaped (callback call_system_exit send_ok) = Some (BaseException ''SystemExit'')
   \<and> sent (callback call_system_exit send_ok) = []"
  by (simp add: callback_def handle_exception_def call_system_exit_def)

text \<open>
  Claim C7, amended: the callback changes nothing in the state of the bot beyond what
  the code of the command did. An \<^verbatim>\<open>Exception\<close> raised by that code is logged and, unless
  the interaction was answered already, reported to the user as an error message; it
  does not escape, and only an exception outside \<^verbatim>\<open>Exception\<close> raised by the sending of
  that message does. A timeout is reported as such, and what the sending of that report
  raises escapes; a timeout is not logged. An exception outside \<^verbatim>\<open>Exception\<close> raised by the
  code escapes.
\<close>

theorem C7_exceptions_caught:
  assumes "outcome call = Raise e"
  shows "final (callback call send_raises) = after call
       \<and> (\<forall>m. e = Exception m \<longrightarrow>
            logged (callback call send_raises)
            \<and> sent (callback call send_raises)
                = (if is_done call \<or> send_raises 0 \<noteq> None then [] else [ErrorText m])
            \<and> escaped (callback call send_raises)
                = (if is_done call then None
                   else case send_raises 0 of
                          None \<Rightarrow> None
                        | Some e' \<Rightarrow> if is_exception e' then None else Some e'))
       \<and> (e = TimeoutError \<longrightarrow>
            \<not> logged (callback call send_raises)
            \<and> sent (callback call send_raises)
                = (if is_done call \<or> send_raises 0 \<noteq> None then [] else [TimedOut])
            \<and> escaped (callback call send_raises)
                = (if is_done call then None else send_raises 0))
       \<and> (\<forall>m. e = BaseException m \<longrightarrow>
            escaped (callback call send_raises) = Some e
            \<and> sent (callback call send_raises) = [])"
  using assms
  by (cases e)
    (auto simp: callback_def handle_exception_def respond_def split: option.splits)

text \<open>
  The amended claim C7 at a command that raises an \<^verbatim>\<open>Exception\<close> with the text
  \<^verbatim>\<open>boom\<close>.
\<close>

theorem C7_exceptions_caught_witness:
  "outcome call_boom = Raise (Exception ''boom'')
   \<and> final (callback call_boom send_ok) = world_ping
   \<and> logged (callback call_boom send_ok)
   \<and> sent (callback call_boom send_ok) = [ErrorText ''boom'']
   \<and> escaped (callback call_boom send_ok) = None"
proof -
  have o: "outcome call_boom = Raise (Exception ''boom'')" by (simp add: call_boom_def)
  from C7_exceptions_caught [OF o, of send_ok] o show ?thesis
    by (simp add: call_boom_def send_ok_def)
qed

end
